theory Spec2Isabelle
  imports Complex_Main
begin

section \<open>Data model\<close>

text \<open>
  The structs of \<^verbatim>\<open>internal/models/models.go\<close> and \<^verbatim>\<open>internal/queue/redis.go\<close> become
  records. Go lets several structs share a field name; a record field is a constant of
  the theory, so every field carries a short prefix naming its struct
  (\<open>Ann_Label\<close> is \<^verbatim>\<open>Annotation.Label\<close>, \<open>AA_MajorityLabel\<close> is
  \<^verbatim>\<open>AnnotatorAgreement.MajorityLabel\<close>, and so on).

  \<^item> A \<^verbatim>\<open>float64\<close> score is modelled by the rational number a finite float denotes,
    and division is exact. The agreement threshold is whatever \<^verbatim>\<open>strconv.ParseFloat\<close>
    made of an environment variable (\<^verbatim>\<open>getEnvFloat\<close> checks no range), so it may
    also be infinite or NaN: it is an \<open>env_float64\<close>.
  \<^item> \<^verbatim>\<open>int\<close> and \<^verbatim>\<open>int64\<close> are modelled by \<open>int\<close>: the only arithmetic on them counts
    the elements of a slice held in memory, which stays far below \<open>2 ^ 63\<close>.
  \<^item> \<^verbatim>\<open>time.Time\<close> is modelled by the RFC 3339 text that its \<^verbatim>\<open>MarshalJSON\<close> prints, so
    two times are equal here when they print alike.
  \<^item> \<^verbatim>\<open>sql.NullFloat64\<close>, \<^verbatim>\<open>sql.NullString\<close> and \<^verbatim>\<open>sql.NullInt32\<close> are options.
\<close>

type_synonym float64 = rat

datatype env_float64 = Num float64 | PlusInf | MinusInf | NaN

text \<open>The comparison \<^verbatim>\<open>x < y\<close> of Go for a finite \<open>x\<close>: false when \<open>y\<close> is NaN.\<close>

fun less_float64 :: "float64 \<Rightarrow> env_float64 \<Rightarrow> bool" where
  "less_float64 x (Num y) = (x < y)"
| "less_float64 x PlusInf = True"
| "less_float64 x MinusInf = False"
| "less_float64 x NaN = False"

type_synonym timestamp = string

record Annotation =
  Ann_ID :: int
  Ann_ConversationID :: string
  Ann_AnnotatorID :: string
  Ann_AnnotationType :: string
  Ann_Label :: string
  Ann_Score :: "float64 option"
  Ann_Confidence :: "float64 option"
  Ann_Notes :: "string option"
  Ann_TimeSpentSeconds :: "int option"
  Ann_CreatedAt :: timestamp

record AnnotatorAgreement =
  AA_ConversationID :: string
  AA_AnnotationType :: string
  AA_Annotators :: "string list"
  AA_AgreementScore :: float64
  AA_MajorityLabel :: string
  AA_NeedsTiebreaker :: bool
  AA_IndividualAnnotations :: "Annotation list"

section \<open>Annotator agreement\<close>

text \<open>
  The body of \<^verbatim>\<open>getAnnotatorAgreement\<close> after the annotations are loaded. Its first loop
  \<^verbatim>\<open>
  for _, ann := range annotations {
      annotators = append(annotators, ann.AnnotatorID)
      labelCounts[ann.Label]++
  }
  \<close>
  fills a \<^verbatim>\<open>map[string]int\<close>; reading a missing key of a Go map gives \<open>0\<close>.
\<close>

definition incr :: "(string \<rightharpoonup> int) \<Rightarrow> string \<Rightarrow> (string \<rightharpoonup> int)" where
  "incr m k = m(k \<mapsto> (case m k of None \<Rightarrow> 0 | Some c \<Rightarrow> c) + 1)"

fun tally :: "(string \<rightharpoonup> int) \<Rightarrow> Annotation list \<Rightarrow> (string \<rightharpoonup> int)" where
  "tally m [] = m"
| "tally m (ann # anns) = tally (incr m (Ann_Label ann)) anns"

definition labelCounts :: "Annotation list \<Rightarrow> (string \<rightharpoonup> int)" where
  "labelCounts annotations = tally Map.empty annotations"

definition annotators :: "Annotation list \<Rightarrow> string list" where
  "annotators annotations = map Ann_AnnotatorID annotations"

text \<open>
  The second loop ranges over the map:
  \<^verbatim>\<open>
  var majorityLabel string
  maxCount := 0
  for label, count := range labelCounts {
      if count > maxCount { maxCount = count; majorityLabel = label }
  }
  \<close>
  Go does not specify the order in which \<^verbatim>\<open>range\<close> visits the keys of a map, and the
  runtime varies it from one loop to the next. The order of one execution is therefore an
  input of the model: a list \<open>ks\<close> of the keys, each once (\<open>range_order\<close>). A key of
  \<open>ks\<close> that the map does not hold is skipped.
\<close>

definition range_order :: "(string \<rightharpoonup> int) \<Rightarrow> string list \<Rightarrow> bool" where
  "range_order m ks \<longleftrightarrow> distinct ks \<and> set ks = dom m"

fun majority :: "(string \<rightharpoonup> int) \<Rightarrow> string list \<Rightarrow> string \<times> int \<Rightarrow> string \<times> int" where
  "majority m [] (majorityLabel, maxCount) = (majorityLabel, maxCount)"
| "majority m (label # ks) (majorityLabel, maxCount) =
     (case m label of
        None \<Rightarrow> majority m ks (majorityLabel, maxCount)
      | Some count \<Rightarrow>
          if count > maxCount then majority m ks (label, count)
          else majority m ks (majorityLabel, maxCount))"

text \<open>
  The rest of the body: the score, the comparison with
  \<^verbatim>\<open>s.cfg.AnnotatorAgreementThreshold\<close> and the response struct.
\<close>

definition agreement ::
  "env_float64 \<Rightarrow> string list \<Rightarrow> string \<Rightarrow> string \<Rightarrow> Annotation list \<Rightarrow> AnnotatorAgreement" where
  "agreement threshold ks conversationID annotationType annotations =
     (let (majorityLabel, maxCount) = majority (labelCounts annotations) ks ('''', 0);
          agreementScore =
            (if length annotations > 1
             then of_int maxCount / of_nat (length annotations) else 1);
          needsTiebreaker = less_float64 agreementScore threshold
      in \<lparr> AA_ConversationID = conversationID,
           AA_AnnotationType = annotationType,
           AA_Annotators = annotators annotations,
           AA_AgreementScore = agreementScore,
           AA_MajorityLabel = majorityLabel,
           AA_NeedsTiebreaker = needsTiebreaker,
           AA_IndividualAnnotations = annotations \<rparr>)"

text \<open>
  What the specification calls \<open>count(label)\<close>: the number of annotations that carry
  a label. The first-encountered label of highest count, in the specification's words,
  is \<open>first_majority\<close>.
\<close>

definition count_label :: "Annotation list \<Rightarrow> string \<Rightarrow> int" where
  "count_label annotations l = int (length (filter (\<lambda>a. Ann_Label a = l) annotations))"

definition highest :: "Annotation list \<Rightarrow> string \<Rightarrow> bool" where
  "highest annotations l \<longleftrightarrow>
     l \<in> set (map Ann_Label annotations) \<and>
     (\<forall>l' \<in> set (map Ann_Label annotations). count_label annotations l' \<le> count_label annotations l)"

definition first_majority :: "Annotation list \<Rightarrow> string option" where
  "first_majority annotations = List.find (highest annotations) (map Ann_Label annotations)"

definition example_annotation :: "string \<Rightarrow> string \<Rightarrow> Annotation" where
  "example_annotation annotator l =
     \<lparr> Ann_ID = 0, Ann_ConversationID = ''c1'', Ann_AnnotatorID = annotator,
       Ann_AnnotationType = ''quality'', Ann_Label = l, Ann_Score = None,
       Ann_Confidence = None, Ann_Notes = None, Ann_TimeSpentSeconds = None,
       Ann_CreatedAt = ''2024-01-01T00:00:00Z'' \<rparr>"

definition two_way_tie :: "Annotation list" where
  "two_way_tie = [example_annotation ''alice'' ''good'', example_annotation ''bob'' ''bad'']"

definition good_good_bad :: "Annotation list" where
  "good_good_bad =
     [example_annotation ''alice'' ''good'', example_annotation ''bob'' ''good'',
      example_annotation ''carol'' ''bad'']"

text \<open>At most one label has the highest count.\<close>

definition unique_highest :: "Annotation list \<Rightarrow> bool" where
  "unique_highest annotations \<longleftrightarrow>
     (\<forall>l \<in> set (map Ann_Label annotations). \<forall>l' \<in> set (map Ann_Label annotations).
        highest annotations l \<and> highest annotations l' \<longrightarrow> l = l')"

section \<open>Routing decision\<close>

text \<open>
  A \<^verbatim>\<open>json.RawMessage\<close> column is a byte string. \<^verbatim>\<open>getRoutingDecision\<close> decodes the
  issues with \<^verbatim>\<open>json.Unmarshal(eval.IssuesDetected, &issues)\<close> and drops the error, so
  the body below takes the decoded slice, whatever the decoder left in it.
\<close>

type_synonym RawMessage = string

record IssueDetected =
  Issue_Type :: string
  Issue_Severity :: string
  Issue_Description :: string
  Issue_TurnID :: int

record Evaluation =
  Eval_ID :: int
  Eval_EvaluationID :: string
  Eval_ConversationID :: string
  Eval_OverallScore :: float64
  Eval_ResponseQualityScore :: float64
  Eval_ToolAccuracyScore :: float64
  Eval_CoherenceScore :: float64
  Eval_ToolEvaluation :: RawMessage
  Eval_IssuesDetected :: RawMessage
  Eval_ImprovementSuggestions :: RawMessage
  Eval_EvaluatorVersion :: string
  Eval_EvaluationDurationMS :: int
  Eval_CreatedAt :: timestamp

record RoutingDecision =
  RD_ConversationID :: string
  RD_NeedsHumanReview :: bool
  RD_Priority :: string
  RD_RoutingReason :: "string list"
  RD_AutoLabel :: bool
  RD_SuggestedAnnotationTypes :: "string list"

text \<open>
  \<^verbatim>\<open>
  criticalCount := 0
  for _, issue := range issues {
      if issue.Severity == "critical" { criticalCount++ }
  }
  \<close>
\<close>

fun criticalCount :: "IssueDetected list \<Rightarrow> int \<Rightarrow> int" where
  "criticalCount [] n = n"
| "criticalCount (issue # issues) n =
     (if Issue_Severity issue = ''critical'' then criticalCount issues (n + 1)
      else criticalCount issues n)"

text \<open>
  \<^verbatim>\<open>
  suggestedTypes := []string{"general_quality"}
  for _, issue := range issues {
      if issue.Type == "tool" || issue.Type == "tool_execution_failure" {
          suggestedTypes = append(suggestedTypes, "tool_accuracy")
      }
      if issue.Type == "context_loss" || issue.Type == "coherence" {
          suggestedTypes = append(suggestedTypes, "coherence")
      }
  }
  \<close>
\<close>

definition is_tool_issue :: "IssueDetected \<Rightarrow> bool" where
  "is_tool_issue issue \<longleftrightarrow>
     Issue_Type issue = ''tool'' \<or> Issue_Type issue = ''tool_execution_failure''"

definition is_coherence_issue :: "IssueDetected \<Rightarrow> bool" where
  "is_coherence_issue issue \<longleftrightarrow>
     Issue_Type issue = ''context_loss'' \<or> Issue_Type issue = ''coherence''"

fun suggestedTypes :: "IssueDetected list \<Rightarrow> string list \<Rightarrow> string list" where
  "suggestedTypes [] types = types"
| "suggestedTypes (issue # issues) types =
     (let types1 = (if is_tool_issue issue then types @ [''tool_accuracy''] else types);
          types2 = (if is_coherence_issue issue then types1 @ [''coherence''] else types1)
      in suggestedTypes issues types2)"

text \<open>
  The body of \<^verbatim>\<open>getRoutingDecision\<close> after the issues are decoded. Each \<^verbatim>\<open>if\<close> statement
  assigns \<^verbatim>\<open>needsReview\<close>, \<^verbatim>\<open>routingReason\<close> and \<^verbatim>\<open>priority\<close> together, so the
  three variables are threaded through as a triple.
\<close>

definition low_quality ::
  "Evaluation \<Rightarrow> bool \<times> string list \<times> string \<Rightarrow> bool \<times> string list \<times> string" where
  "low_quality eval st =
     (case st of (needsReview, routingReason, priority) \<Rightarrow>
        if Eval_OverallScore eval < 4 / 10
        then (True, routingReason @ [''Low quality score''], ''high'')
        else (needsReview, routingReason, priority))"

definition critical_issues ::
  "IssueDetected list \<Rightarrow> bool \<times> string list \<times> string \<Rightarrow> bool \<times> string list \<times> string" where
  "critical_issues issues st =
     (case st of (needsReview, routingReason, priority) \<Rightarrow>
        if criticalCount issues 0 > 0
        then (True, routingReason @ [''Critical issues detected''], ''high'')
        else (needsReview, routingReason, priority))"

definition routing :: "string \<Rightarrow> Evaluation \<Rightarrow> IssueDetected list \<Rightarrow> RoutingDecision" where
  "routing conversationID eval issues =
     (case critical_issues issues (low_quality eval (False, [], ''low'')) of
        (needsReview, routingReason, priority) \<Rightarrow>
          \<lparr> RD_ConversationID = conversationID,
            RD_NeedsHumanReview = needsReview,
            RD_Priority = priority,
            RD_RoutingReason = routingReason,
            RD_AutoLabel = (\<not> needsReview),
            RD_SuggestedAnnotationTypes = suggestedTypes issues [''general_quality''] \<rparr>)"

definition example_evaluation :: "float64 \<Rightarrow> Evaluation" where
  "example_evaluation score =
     \<lparr> Eval_ID = 1, Eval_EvaluationID = ''e1'', Eval_ConversationID = ''c1'',
       Eval_OverallScore = score, Eval_ResponseQualityScore = score,
       Eval_ToolAccuracyScore = score, Eval_CoherenceScore = score,
       Eval_ToolEvaluation = ''{}'', Eval_IssuesDetected = ''[]'',
       Eval_ImprovementSuggestions = ''[]'', Eval_EvaluatorVersion = ''1.0.0'',
       Eval_EvaluationDurationMS = 0, Eval_CreatedAt = ''2024-01-01T00:00:00Z'' \<rparr>"

definition example_issue :: "string \<Rightarrow> string \<Rightarrow> IssueDetected" where
  "example_issue ty severity =
     \<lparr> Issue_Type = ty, Issue_Severity = severity, Issue_Description = '''',
       Issue_TurnID = 0 \<rparr>"

section \<open>Errors\<close>

text \<open>
  A Go \<^verbatim>\<open>error\<close> is a value. \<open>RedisNil\<close> is the sentinel \<^verbatim>\<open>redis.Nil\<close> that the
  code compares with \<^verbatim>\<open>==\<close>; \<open>Wrapped\<close> is \<^verbatim>\<open>fmt.Errorf("...: %w", err)\<close>;
  \<open>Error\<close> is the method \<^verbatim>\<open>err.Error()\<close>.
\<close>

datatype error =
    RedisNil
  | RedisError string
  | JSONError string
  | DBError string
  | BindError string
  | Wrapped string error

fun Error :: "error \<Rightarrow> string" where
  "Error RedisNil = ''redis: nil''"
| "Error (RedisError msg) = msg"
| "Error (JSONError msg) = msg"
| "Error (DBError msg) = msg"
| "Error (BindError msg) = msg"
| "Error (Wrapped prefix err) = prefix @ '': '' @ Error err"

section \<open>Strings and times as \<^verbatim>\<open>encoding/json\<close> treats them\<close>

text \<open>
  A Go string is a sequence of bytes. \<^verbatim>\<open>json.Marshal\<close> writes a string rune by rune
  (\<^verbatim>\<open>utf8.DecodeRuneInString\<close>) and writes U+FFFD for every byte that does not start a
  valid UTF-8 sequence; \<^verbatim>\<open>json.Unmarshal\<close> does the same to the text it reads.
  \<open>rune_size s\<close> is the length of the valid sequence at the head of \<open>s\<close>, or \<open>0\<close>;
  the second byte of a sequence is confined by the first (no overlong form, no
  surrogate, nothing above U+10FFFF).
\<close>

definition byte :: "char \<Rightarrow> nat" where
  "byte c = of_char c"

definition cont :: "char \<Rightarrow> bool" where
  "cont c \<longleftrightarrow> 128 \<le> byte c \<and> byte c \<le> 191"

fun rune_size :: "string \<Rightarrow> nat" where
  "rune_size [] = 0"
| "rune_size (c # cs) =
     (let b = byte c in
      if b < 128 then 1
      else if 194 \<le> b \<and> b \<le> 223 then
        (case cs of c1 # _ \<Rightarrow> if cont c1 then 2 else 0 | _ \<Rightarrow> 0)
      else if 224 \<le> b \<and> b \<le> 239 then
        (case cs of
           c1 # c2 # _ \<Rightarrow>
             if (if b = 224 then 160 else 128) \<le> byte c1 \<and>
                byte c1 \<le> (if b = 237 then 159 else 191) \<and> cont c2
             then 3 else 0
         | _ \<Rightarrow> 0)
      else if 240 \<le> b \<and> b \<le> 244 then
        (case cs of
           c1 # c2 # c3 # _ \<Rightarrow>
             if (if b = 240 then 144 else 128) \<le> byte c1 \<and>
                byte c1 \<le> (if b = 244 then 143 else 191) \<and> cont c2 \<and> cont c3
             then 4 else 0
         | _ \<Rightarrow> 0)
      else 0)"

function ToValidUTF8 :: "string \<Rightarrow> string" where
  "ToValidUTF8 [] = []"
| "ToValidUTF8 (c # cs) =
     (if rune_size (c # cs) = 0 then [CHR 0xEF, CHR 0xBF, CHR 0xBD] @ ToValidUTF8 cs
      else take (rune_size (c # cs)) (c # cs)
           @ ToValidUTF8 (drop (rune_size (c # cs)) (c # cs)))"
  by pat_completeness auto
termination
  by (relation "measure length") (auto simp del: rune_size.simps)

function valid_utf8 :: "string \<Rightarrow> bool" where
  "valid_utf8 [] = True"
| "valid_utf8 (c # cs) =
     (if rune_size (c # cs) = 0 then False
      else valid_utf8 (drop (rune_size (c # cs)) (c # cs)))"
  by pat_completeness auto
termination
  by (relation "measure length") (auto simp del: rune_size.simps)

text \<open>
  The decoder matches a member name with a field's tag name up to letter case; besides
  the ASCII letters, U+017F folds to \<open>S\<close> and U+212A to \<open>K\<close>. A lower-case ASCII
  letter becomes upper case by clearing its bit of value 32.
\<close>

fun clear_bit5 :: "char \<Rightarrow> char" where
  "clear_bit5 (Char b0 b1 b2 b3 b4 b5 b6 b7) = Char b0 b1 b2 b3 b4 False b6 b7"

definition upper :: "char \<Rightarrow> char" where
  "upper c = (if 97 \<le> byte c \<and> byte c \<le> 122 then clear_bit5 c else c)"

function foldName :: "string \<Rightarrow> string" where
  "foldName [] = []"
| "foldName (c # cs) =
     (if c = CHR 0xC5 \<and> take 1 cs = [CHR 0xBF] then CHR ''S'' # foldName (drop 1 cs)
      else if c = CHR 0xE2 \<and> take 2 cs = [CHR 0x84, CHR 0xAA]
      then CHR ''K'' # foldName (drop 2 cs)
      else upper c # foldName cs)"
  by pat_completeness auto
termination
  by (relation "measure length") auto

text \<open>
  A \<^verbatim>\<open>time.Time\<close> is modelled by the text that \<^verbatim>\<open>Time.MarshalJSON\<close> prints for it
  (layout \<^verbatim>\<open>2006-01-02T15:04:05.999999999Z07:00\<close>): a four-digit year, a date of the
  calendar, a time of day, an optional fraction of one to nine digits that does not end
  in \<open>0\<close>, and \<open>Z\<close> or a non-zero offset of hours below 24 and minutes below 60.
  \<open>rfc3339\<close> recognises these texts. A \<open>timestamp\<close> that is no such text stands for a
  time that \<^verbatim>\<open>MarshalJSON\<close> refuses to print (its year is outside 0..9999).
\<close>

definition digit :: "char \<Rightarrow> bool" where
  "digit c \<longleftrightarrow> 48 \<le> byte c \<and> byte c \<le> 57"

definition num :: "string \<Rightarrow> nat" where
  "num cs = foldl (\<lambda>n c. 10 * n + (byte c - 48)) 0 cs"

definition slice :: "string \<Rightarrow> nat \<Rightarrow> nat \<Rightarrow> string" where
  "slice s i n = take n (drop i s)"

definition digits :: "string \<Rightarrow> nat \<Rightarrow> bool" where
  "digits cs n \<longleftrightarrow> length cs = n \<and> list_all digit cs"

definition leap :: "nat \<Rightarrow> bool" where
  "leap y \<longleftrightarrow> (y mod 4 = 0 \<and> y mod 100 \<noteq> 0) \<or> y mod 400 = 0"

definition days_in :: "nat \<Rightarrow> nat \<Rightarrow> nat" where
  "days_in y m =
     (if m = 2 then (if leap y then 29 else 28)
      else if m = 4 \<or> m = 6 \<or> m = 9 \<or> m = 11 then 30 else 31)"

definition zone :: "string \<Rightarrow> bool" where
  "zone z \<longleftrightarrow>
     z = ''Z'' \<or>
     (length z = 6 \<and> (slice z 0 1 = ''+'' \<or> slice z 0 1 = ''-'') \<and>
      digits (slice z 1 2) 2 \<and> slice z 3 1 = '':'' \<and> digits (slice z 4 2) 2 \<and>
      num (slice z 1 2) \<le> 23 \<and> num (slice z 4 2) \<le> 59 \<and>
      0 < num (slice z 1 2) + num (slice z 4 2))"

definition fraction_and_zone :: "string \<Rightarrow> bool" where
  "fraction_and_zone t =
     (case t of
        [] \<Rightarrow> False
      | c # r \<Rightarrow>
          if c = CHR ''.''
          then (let f = takeWhile digit r
                in 1 \<le> length f \<and> length f \<le> 9 \<and> last f \<noteq> CHR ''0'' \<and>
                   zone (dropWhile digit r))
          else zone t)"

definition rfc3339 :: "string \<Rightarrow> bool" where
  "rfc3339 s \<longleftrightarrow>
     digits (slice s 0 4) 4 \<and> slice s 4 1 = ''-'' \<and>
     digits (slice s 5 2) 2 \<and> slice s 7 1 = ''-'' \<and>
     digits (slice s 8 2) 2 \<and> slice s 10 1 = ''T'' \<and>
     digits (slice s 11 2) 2 \<and> slice s 13 1 = '':'' \<and>
     digits (slice s 14 2) 2 \<and> slice s 16 1 = '':'' \<and>
     digits (slice s 17 2) 2 \<and>
     1 \<le> num (slice s 5 2) \<and> num (slice s 5 2) \<le> 12 \<and>
     1 \<le> num (slice s 8 2) \<and>
     num (slice s 8 2) \<le> days_in (num (slice s 0 4)) (num (slice s 5 2)) \<and>
     num (slice s 11 2) \<le> 23 \<and> num (slice s 14 2) \<le> 59 \<and> num (slice s 17 2) \<le> 59 \<and>
     fraction_and_zone (drop 19 s)"

section \<open>Tasks and their JSON encoding\<close>

text \<open>
  \<^verbatim>\<open>
  type Task struct {
      ID             string                 `json:"id"`
      Type           string                 `json:"type"`
      ConversationID string                 `json:"conversation_id"`
      EvaluatorTypes []string               `json:"evaluator_types,omitempty"`
      Payload        map[string]interface{} `json:"payload,omitempty"`
      CreatedAt      time.Time              `json:"created_at"`
  }
  \<close>
  A Go slice or map is either \<^verbatim>\<open>nil\<close> or holds a (possibly empty) collection, and
  \<^verbatim>\<open>reflect.DeepEqual\<close> tells the two apart: \<open>None\<close> is \<^verbatim>\<open>nil\<close>, \<open>Some []\<close> is
  the empty non-nil value. A non-empty payload is represented by the members of the JSON
  object that \<^verbatim>\<open>json.Marshal\<close> prints for it; a payload holding a value that has no JSON
  form is not represented.
\<close>

datatype json =
    JNull
  | JBool bool
  | JNumber rat
  | JString string
  | JArray "json list"
  | JObject "(string \<times> json) list"

record Task =
  Task_ID :: string
  Task_Type :: string
  Task_ConversationID :: string
  Task_EvaluatorTypes :: "string list option"
  Task_Payload :: "(string \<times> json) list option"
  Task_CreatedAt :: timestamp

text \<open>
  \<^verbatim>\<open>json.Marshal(task)\<close>, read off the struct tags: the fields in declaration order
  under their tag names, a field tagged \<^verbatim>\<open>omitempty\<close> left out when its length is zero
  (\<^verbatim>\<open>nil\<close> or empty), every string made valid UTF-8. The result is the JSON document;
  its text, with its escapes, is not modelled. The call fails when the time cannot be
  printed.
\<close>

definition omitempty :: "string \<Rightarrow> 'a list option \<Rightarrow> ('a list \<Rightarrow> json) \<Rightarrow> (string \<times> json) list" where
  "omitempty name field enc =
     (case field of
        None \<Rightarrow> []
      | Some xs \<Rightarrow> if length xs = 0 then [] else [(name, enc xs)])"

fun encode_value :: "json \<Rightarrow> json" where
  "encode_value (JString s) = JString (ToValidUTF8 s)"
| "encode_value (JArray js) = JArray (map encode_value js)"
| "encode_value (JObject kvs) = JObject (map (\<lambda>(k, v). (ToValidUTF8 k, encode_value v)) kvs)"
| "encode_value j = j"

definition Marshal_Task :: "Task \<Rightarrow> error + json" where
  "Marshal_Task task =
     (if rfc3339 (Task_CreatedAt task) then
        Inr (JObject
          ([(''id'', JString (ToValidUTF8 (Task_ID task))),
            (''type'', JString (ToValidUTF8 (Task_Type task))),
            (''conversation_id'', JString (ToValidUTF8 (Task_ConversationID task)))]
           @ omitempty ''evaluator_types'' (Task_EvaluatorTypes task)
               (\<lambda>ts. JArray (map (\<lambda>t. JString (ToValidUTF8 t)) ts))
           @ omitempty ''payload'' (Task_Payload task) (\<lambda>kvs. encode_value (JObject kvs))
           @ [(''created_at'', JString (Task_CreatedAt task))]))
      else Inl (JSONError
        ''json: error calling MarshalJSON for type time.Time: Time.MarshalJSON: year outside of range [0,9999]''))"

text \<open>
  \<^verbatim>\<open>json.Unmarshal(data, &task)\<close> into a fresh \<^verbatim>\<open>Task\<close>: a member that is absent or
  \<^verbatim>\<open>null\<close> leaves the field at its zero value, member names match up to letter case,
  the last of several members for one field wins, a member of the wrong JSON type is an
  error, and so is a time that is not RFC 3339. A number inside the payload is stored
  as a \<^verbatim>\<open>float64\<close>; \<open>decode_number\<close>, a parameter, gives the number that prints for
  that \<^verbatim>\<open>float64\<close>. (Of the spellings of a time that Go parses, only the one that
  \<^verbatim>\<open>MarshalJSON\<close> prints is accepted here, and the members of a payload object are kept
  in the order of the document.)
\<close>

definition member :: "(string \<times> json) list \<Rightarrow> string \<Rightarrow> json option" where
  "member obj name =
     map_of (rev (map (\<lambda>(k, v). (foldName (ToValidUTF8 k), v)) obj)) (foldName name)"

definition decode_string :: "json option \<Rightarrow> string \<Rightarrow> error + string" where
  "decode_string j zero =
     (case j of
        None \<Rightarrow> Inr zero
      | Some JNull \<Rightarrow> Inr zero
      | Some (JString s) \<Rightarrow> Inr (ToValidUTF8 s)
      | Some _ \<Rightarrow> Inl (JSONError ''json: cannot unmarshal into Go value of type string''))"

fun decode_strings :: "json list \<Rightarrow> error + string list" where
  "decode_strings [] = Inr []"
| "decode_strings (j # js) =
     (case decode_string (Some j) '''' of
        Inl err \<Rightarrow> Inl err
      | Inr s \<Rightarrow> (case decode_strings js of Inl err \<Rightarrow> Inl err | Inr ss \<Rightarrow> Inr (s # ss)))"

definition decode_slice :: "json option \<Rightarrow> error + string list option" where
  "decode_slice j =
     (case j of
        None \<Rightarrow> Inr None
      | Some JNull \<Rightarrow> Inr None
      | Some (JArray js) \<Rightarrow> (case decode_strings js of Inl err \<Rightarrow> Inl err | Inr ss \<Rightarrow> Inr (Some ss))
      | Some _ \<Rightarrow> Inl (JSONError ''json: cannot unmarshal into Go value of type []string''))"

fun decode_value :: "(rat \<Rightarrow> rat) \<Rightarrow> json \<Rightarrow> json" where
  "decode_value decode_number (JNumber r) = JNumber (decode_number r)"
| "decode_value decode_number (JString s) = JString (ToValidUTF8 s)"
| "decode_value decode_number (JArray js) = JArray (map (decode_value decode_number) js)"
| "decode_value decode_number (JObject kvs) =
     JObject (map (\<lambda>(k, v). (ToValidUTF8 k, decode_value decode_number v)) kvs)"
| "decode_value decode_number j = j"

definition decode_map :: "(rat \<Rightarrow> rat) \<Rightarrow> json option \<Rightarrow> error + (string \<times> json) list option" where
  "decode_map decode_number j =
     (case j of
        None \<Rightarrow> Inr None
      | Some JNull \<Rightarrow> Inr None
      | Some (JObject kvs) \<Rightarrow>
          Inr (Some (map (\<lambda>(k, v). (ToValidUTF8 k, decode_value decode_number v)) kvs))
      | Some _ \<Rightarrow> Inl (JSONError ''json: cannot unmarshal into Go value of type map[string]interface {}''))"

definition zero_time :: timestamp where
  "zero_time = ''0001-01-01T00:00:00Z''"

definition decode_time :: "json option \<Rightarrow> error + timestamp" where
  "decode_time j =
     (case j of
        None \<Rightarrow> Inr zero_time
      | Some JNull \<Rightarrow> Inr zero_time
      | Some (JString s) \<Rightarrow>
          if rfc3339 s then Inr s else Inl (JSONError ''parsing time: cannot parse as RFC 3339'')
      | Some _ \<Rightarrow> Inl (JSONError ''Time.UnmarshalJSON: input is not a JSON string''))"

definition zero_Task :: Task where
  "zero_Task =
     \<lparr> Task_ID = '''', Task_Type = '''', Task_ConversationID = '''',
       Task_EvaluatorTypes = None, Task_Payload = None, Task_CreatedAt = zero_time \<rparr>"

definition Unmarshal_Task :: "(rat \<Rightarrow> rat) \<Rightarrow> json \<Rightarrow> error + Task" where
  "Unmarshal_Task decode_number data =
     (case data of
        JNull \<Rightarrow> Inr zero_Task
      | JObject obj \<Rightarrow>
          (case decode_string (member obj ''id'') '''' of Inl err \<Rightarrow> Inl err | Inr tid \<Rightarrow>
          (case decode_string (member obj ''type'') '''' of Inl err \<Rightarrow> Inl err | Inr ty \<Rightarrow>
          (case decode_string (member obj ''conversation_id'') '''' of Inl err \<Rightarrow> Inl err | Inr cid \<Rightarrow>
          (case decode_slice (member obj ''evaluator_types'') of Inl err \<Rightarrow> Inl err | Inr ets \<Rightarrow>
          (case decode_map decode_number (member obj ''payload'') of Inl err \<Rightarrow> Inl err | Inr pl \<Rightarrow>
          (case decode_time (member obj ''created_at'') of Inl err \<Rightarrow> Inl err | Inr created \<Rightarrow>
             Inr \<lparr> Task_ID = tid, Task_Type = ty, Task_ConversationID = cid,
                   Task_EvaluatorTypes = ets, Task_Payload = pl, Task_CreatedAt = created \<rparr>))))))
      | _ \<Rightarrow> Inl (JSONError ''json: cannot unmarshal into Go value of type queue.Task''))"

section \<open>The Redis queue\<close>

text \<open>
  The Redis server behind \<^verbatim>\<open>RedisQueue\<close> is a store from keys to values, a value being a
  string or a list of strings. Every string this program writes is the text of a JSON
  document, and the store holds the document. \<open>client_down\<close> is the transport failure,
  if any, that every command of the client meets; a failed command leaves the store as
  it was. The model is sequential: no other client touches the store between two
  commands.
\<close>

datatype redis_value = RString json | RList "json list"

record RedisQueue =
  client_store :: "string \<rightharpoonup> redis_value"
  client_down :: "string option"

definition wrongtype :: error where
  "wrongtype = RedisError ''WRONGTYPE Operation against a key holding the wrong kind of value''"

text \<open>\<^verbatim>\<open>RPUSH key data\<close>: append at the tail, creating the list when the key is absent.\<close>

definition RPush :: "RedisQueue \<Rightarrow> string \<Rightarrow> json \<Rightarrow> RedisQueue \<times> error option" where
  "RPush q key data =
     (case client_down q of
        Some msg \<Rightarrow> (q, Some (RedisError msg))
      | None \<Rightarrow>
          (case client_store q key of
             None \<Rightarrow> (q\<lparr>client_store := (client_store q)(key \<mapsto> RList [data])\<rparr>, None)
           | Some (RList xs) \<Rightarrow>
               (q\<lparr>client_store := (client_store q)(key \<mapsto> RList (xs @ [data]))\<rparr>, None)
           | Some (RString v) \<Rightarrow> (q, Some wrongtype)))"

text \<open>
  \<^verbatim>\<open>client.BLPop(ctx, timeout, key)\<close>. The client sends the timeout in whole seconds
  (\<^verbatim>\<open>formatSec\<close>: a positive duration below one second becomes 1, any other is divided
  by a second, rounding toward zero); the duration is in nanoseconds. The server
  refuses a negative timeout, removes the head of the list and replies with the key and
  the value when there is a list, and otherwise waits: for ever when the timeout is
  \<open>0\<close>, else until the timeout, replying nil. The client reads with no deadline when
  the duration is \<open>0\<close> and with a deadline of the duration plus ten seconds otherwise,
  so a negative duration above minus one second, sent as \<open>0\<close>, ends in a read
  timeout. Redis deletes a list that becomes empty. The result \<open>None\<close> is a call
  that does not return.
\<close>

datatype bulk = BulkKey string | BulkData json

definition formatSec :: "int \<Rightarrow> int" where
  "formatSec dur =
     (if 0 < dur \<and> dur < 1000000000 then 1
      else if 0 \<le> dur then dur div 1000000000
      else - ((- dur) div 1000000000))"

definition BLPop ::
  "RedisQueue \<Rightarrow> int \<Rightarrow> string \<Rightarrow> (RedisQueue \<times> (error + bulk list)) option" where
  "BLPop q timeout key =
     (case client_down q of
        Some msg \<Rightarrow> Some (q, Inl (RedisError msg))
      | None \<Rightarrow>
          if formatSec timeout < 0 then Some (q, Inl (RedisError ''ERR timeout is negative''))
          else
            (case client_store q key of
               Some (RString v) \<Rightarrow> Some (q, Inl wrongtype)
             | Some (RList (x # xs)) \<Rightarrow>
                 Some (q\<lparr>client_store :=
                          (client_store q)(key := (if xs = [] then None else Some (RList xs)))\<rparr>,
                       Inr [BulkKey key, BulkData x])
             | _ \<Rightarrow>
                 if timeout = 0 then None
                 else if formatSec timeout = 0 then Some (q, Inl (RedisError ''i/o timeout''))
                 else Some (q, Inl RedisNil)))"

text \<open>\<^verbatim>\<open>GET key\<close>: the string at the key; nil when the key is absent.\<close>

definition GET :: "RedisQueue \<Rightarrow> string \<Rightarrow> error + json" where
  "GET q key =
     (case client_down q of
        Some msg \<Rightarrow> Inl (RedisError msg)
      | None \<Rightarrow>
          (case client_store q key of
             None \<Rightarrow> Inl RedisNil
           | Some (RString v) \<Rightarrow> Inr v
           | Some (RList xs) \<Rightarrow> Inl wrongtype))"

text \<open>
  \<^verbatim>\<open>
  func (q *RedisQueue) Enqueue(queueName string, task *Task) error {
      data, err := json.Marshal(task)
      if err != nil { return fmt.Errorf("failed to marshal task: %w", err) }
      return q.client.RPush(q.ctx, queueName, data).Err()
  }
  \<close>
\<close>

definition Enqueue :: "RedisQueue \<Rightarrow> string \<Rightarrow> Task \<Rightarrow> RedisQueue \<times> error option" where
  "Enqueue q queueName task =
     (case Marshal_Task task of
        Inl err \<Rightarrow> (q, Some (Wrapped ''failed to marshal task'' err))
      | Inr data \<Rightarrow> RPush q queueName data)"

text \<open>
  \<^verbatim>\<open>
  func (q *RedisQueue) Dequeue(queueName string, timeout time.Duration) (*Task, error) {
      result, err := q.client.BLPop(q.ctx, timeout, queueName).Result()
      if err != nil {
          if err == redis.Nil { return nil, nil }
          return nil, fmt.Errorf("failed to dequeue task: %w", err)
      }
      if len(result) < 2 { return nil, nil }
      var task Task
      if err := json.Unmarshal([]byte(result[1]), &task); err != nil {
          return nil, fmt.Errorf("failed to unmarshal task: %w", err)
      }
      return &task, nil
  }
  \<close>
  The result \<open>Some (q', Inr None)\<close> is \<^verbatim>\<open>(nil, nil)\<close>; the result \<open>None\<close> is a call
  that does not return.
\<close>

fun bulk_json :: "bulk \<Rightarrow> json" where
  "bulk_json (BulkData d) = d"
| "bulk_json (BulkKey k) = JString k"

definition Dequeue ::
  "(rat \<Rightarrow> rat) \<Rightarrow> RedisQueue \<Rightarrow> string \<Rightarrow> int \<Rightarrow> (RedisQueue \<times> (error + Task option)) option" where
  "Dequeue decode_number q queueName timeout =
     (case BLPop q timeout queueName of
        None \<Rightarrow> None
      | Some (q', Inl err) \<Rightarrow>
          if err = RedisNil then Some (q', Inr None)
          else Some (q', Inl (Wrapped ''failed to dequeue task'' err))
      | Some (q', Inr result) \<Rightarrow>
          if length result < 2 then Some (q', Inr None)
          else (case Unmarshal_Task decode_number (bulk_json (result ! 1)) of
                  Inl err \<Rightarrow> Some (q', Inl (Wrapped ''failed to unmarshal task'' err))
                | Inr task \<Rightarrow> Some (q', Inr (Some task))))"

text \<open>
  \<^verbatim>\<open>
  func (q *RedisQueue) Get(key string, dest interface{}) error {
      data, err := q.client.Get(q.ctx, key).Bytes()
      if err != nil {
          if err == redis.Nil { return nil // Key not found }
          return fmt.Errorf("failed to get value: %w", err)
      }
      return json.Unmarshal(data, dest)
  }
  \<close>
  \<^verbatim>\<open>dest\<close> points to a variable of the caller. The model takes the variable's value and
  returns the error together with the value the variable holds afterwards;
  \<open>Unmarshal\<close> is \<^verbatim>\<open>json.Unmarshal\<close> at the type of \<^verbatim>\<open>dest\<close>.
\<close>

definition Get ::
  "(json \<Rightarrow> 'a \<Rightarrow> error option \<times> 'a) \<Rightarrow> RedisQueue \<Rightarrow> string \<Rightarrow> 'a \<Rightarrow> error option \<times> 'a" where
  "Get Unmarshal q key dest =
     (case GET q key of
        Inl err \<Rightarrow>
          if err = RedisNil then (None, dest)
          else (Some (Wrapped ''failed to get value'' err), dest)
      | Inr data \<Rightarrow> Unmarshal data dest)"

definition example_task :: "string list option \<Rightarrow> (string \<times> json) list option \<Rightarrow> Task" where
  "example_task evaluatorTypes payload =
     \<lparr> Task_ID = ''7c9e6679-7425-40de-944b-e07fc1f90ae7'', Task_Type = ''evaluate'',
       Task_ConversationID = ''c1'', Task_EvaluatorTypes = evaluatorTypes,
       Task_Payload = payload, Task_CreatedAt = ''2024-01-01T00:00:00Z'' \<rparr>"

definition empty_queue :: RedisQueue where
  "empty_queue = \<lparr> client_store = Map.empty, client_down = None \<rparr>"

definition Unmarshal_string :: "json \<Rightarrow> string \<Rightarrow> error option \<times> string" where
  "Unmarshal_string data dest =
     (case decode_string (Some data) dest of Inl err \<Rightarrow> (Some err, dest) | Inr s \<Rightarrow> (None, s))"

definition down_queue :: RedisQueue where
  "down_queue = \<lparr> client_store = Map.empty, client_down = Some ''dial tcp: connection refused'' \<rparr>"

text \<open>
  What \<^verbatim>\<open>omitempty\<close> makes of a slice or map across encoding and decoding: an empty
  one is left out of the document and decodes to \<^verbatim>\<open>nil\<close>.
\<close>

definition nil_if_empty :: "'a list option \<Rightarrow> 'a list option" where
  "nil_if_empty field = (case field of None \<Rightarrow> None | Some xs \<Rightarrow> if xs = [] then None else Some xs)"

text \<open>
  The tasks whose encoding is followed here in full: every string is valid UTF-8, the
  time can be printed, and there is no payload member (the payload is \<^verbatim>\<open>nil\<close> or
  empty), as in every task that the handlers of this repository build.
\<close>

definition encodable :: "Task \<Rightarrow> bool" where
  "encodable task \<longleftrightarrow>
     valid_utf8 (Task_ID task) \<and> valid_utf8 (Task_Type task) \<and>
     valid_utf8 (Task_ConversationID task) \<and>
     (case Task_EvaluatorTypes task of None \<Rightarrow> True | Some ts \<Rightarrow> list_all valid_utf8 ts) \<and>
     nil_if_empty (Task_Payload task) = None \<and>
     rfc3339 (Task_CreatedAt task)"

section \<open>The HTTP handlers\<close>

text \<open>
  A handler ends with one call \<^verbatim>\<open>c.JSON(status, body)\<close>. \<open>ErrorJSON status msg\<close> is
  \<^verbatim>\<open>c.JSON(status, gin.H{"error": msg})\<close> and \<open>OkJSON status v\<close> is \<^verbatim>\<open>c.JSON(status, v)\<close>.
\<close>

datatype 'a response = ErrorJSON nat string | OkJSON nat 'a

definition StatusOK :: nat where "StatusOK = 200"
definition StatusCreated :: nat where "StatusCreated = 201"
definition StatusBadRequest :: nat where "StatusBadRequest = 400"
definition StatusNotFound :: nat where "StatusNotFound = 404"
definition StatusInternalServerError :: nat where "StatusInternalServerError = 500"

text \<open>
  Of \<^verbatim>\<open>config.Config\<close> only the field that the handlers below read. The nested structs
  of a \<^verbatim>\<open>ConversationCreate\<close> (turns, feedback, metadata) are kept as the JSON they
  were bound from: no handler below reads inside them.
\<close>

record Config =
  AnnotatorAgreementThreshold :: env_float64

record ConversationCreate =
  CC_ConversationID :: string
  CC_AgentVersion :: string
  CC_Turns :: "json list"
  CC_Feedback :: "json option"
  CC_Metadata :: "json option"

record Conversation =
  Conv_ID :: int
  Conv_ConversationID :: string
  Conv_AgentVersion :: string
  Conv_Turns :: RawMessage
  Conv_Metadata :: RawMessage
  Conv_CreatedAt :: timestamp
  Conv_UpdatedAt :: timestamp

record EvaluationRequest =
  Req_ConversationID :: string
  Req_EvaluatorTypes :: "string list option"

text \<open>
  The repository is the SQL database behind \<^verbatim>\<open>repository.Repository\<close>. A handler sees
  it through the results of its methods, so it is modelled by those methods as functions
  of their arguments: an error, or the row(s), \<open>None\<close> for the \<^verbatim>\<open>(nil, nil)\<close> that
  the methods return on \<^verbatim>\<open>sql.ErrNoRows\<close>.
\<close>

record Repository =
  CreateConversation :: "ConversationCreate \<Rightarrow> error + Conversation"
  GetConversation :: "string \<Rightarrow> error + Conversation option"
  GetAnnotationsForConversation :: "string \<Rightarrow> string \<Rightarrow> error + Annotation list"
  GetLatestEvaluationForConversation :: "string \<Rightarrow> error + Evaluation option"

record Server =
  cfg :: Config
  repo :: Repository
  queue :: RedisQueue

text \<open>\<^verbatim>\<open>c.DefaultQuery(key, defaultValue)\<close> on a query parameter that may be absent.\<close>

definition DefaultQuery :: "string option \<Rightarrow> string \<Rightarrow> string" where
  "DefaultQuery param defaultValue = (case param of None \<Rightarrow> defaultValue | Some v \<Rightarrow> v)"

definition default_evaluators :: "string list" where
  "default_evaluators = [''llm_judge'', ''tool_call'', ''coherence'', ''heuristic'']"

text \<open>
  \<^verbatim>\<open>createConversation\<close>. \<open>bound\<close> is the outcome of \<^verbatim>\<open>c.ShouldBindJSON(&conv)\<close>,
  \<open>auto_evaluate\<close> the query parameter, \<open>uuid\<close> and \<open>now\<close> the values that
  \<^verbatim>\<open>uuid.New().String()\<close> and \<^verbatim>\<open>time.Now()\<close> return. The handler returns its response
  and the queue it leaves behind.
  \<^verbatim>\<open>
  created, err := s.repo.CreateConversation(&conv)
  if err != nil { c.JSON(http.StatusInternalServerError, ...); return }
  autoEvaluate := c.DefaultQuery("auto_evaluate", "true") == "true"
  if autoEvaluate {
      task := &queue.Task{ID: uuid.New().String(), Type: "evaluate",
          ConversationID: conv.ConversationID,
          EvaluatorTypes: []string{"llm_judge", "tool_call", "coherence", "heuristic"},
          CreatedAt: time.Now()}
      if err := s.queue.Enqueue("evaluations", task); err != nil {
          // Log but don't fail
          _ = err
      }
  }
  c.JSON(http.StatusCreated, created)
  \<close>
\<close>

definition ingest_task :: "ConversationCreate \<Rightarrow> string \<Rightarrow> timestamp \<Rightarrow> Task" where
  "ingest_task conv uuid now =
     \<lparr> Task_ID = uuid, Task_Type = ''evaluate'',
       Task_ConversationID = CC_ConversationID conv,
       Task_EvaluatorTypes = Some default_evaluators,
       Task_Payload = None, Task_CreatedAt = now \<rparr>"

definition createConversation ::
  "Server \<Rightarrow> error + ConversationCreate \<Rightarrow> string option \<Rightarrow> string \<Rightarrow> timestamp
     \<Rightarrow> Conversation response \<times> RedisQueue" where
  "createConversation s bound auto_evaluate uuid now =
     (case bound of
        Inl err \<Rightarrow> (ErrorJSON StatusBadRequest (Error err), queue s)
      | Inr conv \<Rightarrow>
          (case CreateConversation (repo s) conv of
             Inl err \<Rightarrow> (ErrorJSON StatusInternalServerError (Error err), queue s)
           | Inr created \<Rightarrow>
               let autoEvaluate = (DefaultQuery auto_evaluate ''true'' = ''true'');
                   q' = (if autoEvaluate
                         then (case Enqueue (queue s) ''evaluations'' (ingest_task conv uuid now) of
                                 (q', Some err) \<Rightarrow> q'
                               | (q', None) \<Rightarrow> q')
                         else queue s)
               in (OkJSON StatusCreated created, q')))"

text \<open>
  \<^verbatim>\<open>triggerEvaluation\<close>, with the same inputs.
  \<^verbatim>\<open>
  conv, err := s.repo.GetConversation(req.ConversationID)
  if err != nil { c.JSON(http.StatusInternalServerError, ...); return }
  if conv == nil { c.JSON(http.StatusNotFound, gin.H{"error": "Conversation not found"}); return }
  evaluatorTypes := req.EvaluatorTypes
  if len(evaluatorTypes) == 0 { evaluatorTypes = []string{"llm_judge", ...} }
  taskID := uuid.New().String()
  task := &queue.Task{ID: taskID, Type: "evaluate", ConversationID: req.ConversationID,
      EvaluatorTypes: evaluatorTypes, CreatedAt: time.Now()}
  if err := s.queue.Enqueue("evaluations", task); err != nil {
      c.JSON(http.StatusInternalServerError, gin.H{"error": "Failed to queue evaluation"})
      return
  }
  c.JSON(http.StatusOK, gin.H{"task_id": taskID, "conversation_id": req.ConversationID,
      "status": "queued"})
  \<close>
\<close>

definition trigger_task :: "EvaluationRequest \<Rightarrow> string \<Rightarrow> timestamp \<Rightarrow> Task" where
  "trigger_task req uuid now =
     (let evaluatorTypes =
            (case Req_EvaluatorTypes req of
               None \<Rightarrow> Some default_evaluators
             | Some ts \<Rightarrow> if length ts = 0 then Some default_evaluators else Some ts)
      in \<lparr> Task_ID = uuid, Task_Type = ''evaluate'',
           Task_ConversationID = Req_ConversationID req,
           Task_EvaluatorTypes = evaluatorTypes,
           Task_Payload = None, Task_CreatedAt = now \<rparr>)"

definition triggerEvaluation ::
  "Server \<Rightarrow> error + EvaluationRequest \<Rightarrow> string \<Rightarrow> timestamp
     \<Rightarrow> (string \<times> string) list response \<times> RedisQueue" where
  "triggerEvaluation s bound uuid now =
     (case bound of
        Inl err \<Rightarrow> (ErrorJSON StatusBadRequest (Error err), queue s)
      | Inr req \<Rightarrow>
          (case GetConversation (repo s) (Req_ConversationID req) of
             Inl err \<Rightarrow> (ErrorJSON StatusInternalServerError (Error err), queue s)
           | Inr None \<Rightarrow> (ErrorJSON StatusNotFound ''Conversation not found'', queue s)
           | Inr (Some conv) \<Rightarrow>
               (case Enqueue (queue s) ''evaluations'' (trigger_task req uuid now) of
                  (q', Some err) \<Rightarrow>
                    (ErrorJSON StatusInternalServerError ''Failed to queue evaluation'', q')
                | (q', None) \<Rightarrow>
                    (OkJSON StatusOK
                       [(''task_id'', uuid),
                        (''conversation_id'', Req_ConversationID req),
                        (''status'', ''queued'')], q'))))"

text \<open>
  \<^verbatim>\<open>getAnnotatorAgreement\<close>: the checks before the computation of section
  \<open>Annotator agreement\<close>. \<open>ks\<close> is the order in which this run ranges over the map.
\<close>

definition getAnnotatorAgreement ::
  "Server \<Rightarrow> string list \<Rightarrow> string \<Rightarrow> string \<Rightarrow> AnnotatorAgreement response" where
  "getAnnotatorAgreement s ks conversationID annotationType =
     (if annotationType = '''' then ErrorJSON StatusBadRequest ''annotation_type is required''
      else
        (case GetAnnotationsForConversation (repo s) conversationID annotationType of
           Inl err \<Rightarrow> ErrorJSON StatusInternalServerError (Error err)
         | Inr annotations \<Rightarrow>
             OkJSON StatusOK
               (agreement (AnnotatorAgreementThreshold (cfg s)) ks
                  conversationID annotationType annotations)))"

text \<open>
  \<^verbatim>\<open>getRoutingDecision\<close>: the checks before the computation of section
  \<open>Routing decision\<close>. \<open>Unmarshal_issues\<close> is what
  \<^verbatim>\<open>json.Unmarshal(eval.IssuesDetected, &issues)\<close> leaves in \<^verbatim>\<open>issues\<close>.
\<close>

definition getRoutingDecision ::
  "Server \<Rightarrow> (RawMessage \<Rightarrow> IssueDetected list) \<Rightarrow> string \<Rightarrow> RoutingDecision response" where
  "getRoutingDecision s Unmarshal_issues conversationID =
     (case GetLatestEvaluationForConversation (repo s) conversationID of
        Inl err \<Rightarrow> ErrorJSON StatusInternalServerError (Error err)
      | Inr None \<Rightarrow> ErrorJSON StatusNotFound ''No evaluation found for conversation''
      | Inr (Some eval) \<Rightarrow>
          OkJSON StatusOK
            (routing conversationID eval (Unmarshal_issues (Eval_IssuesDetected eval))))"

text \<open>A server over fixed query results, for the concrete runs below.\<close>

definition example_conversation :: "string \<Rightarrow> Conversation" where
  "example_conversation conversationID =
     \<lparr> Conv_ID = 1, Conv_ConversationID = conversationID, Conv_AgentVersion = ''v1'',
       Conv_Turns = ''[]'', Conv_Metadata = ''{}'',
       Conv_CreatedAt = ''2024-01-01T00:00:00Z'', Conv_UpdatedAt = ''2024-01-01T00:00:00Z'' \<rparr>"

definition example_repo ::
  "Conversation option \<Rightarrow> Annotation list \<Rightarrow> Evaluation option \<Rightarrow> Repository" where
  "example_repo conv annotations eval =
     \<lparr> CreateConversation = (\<lambda>c. Inr (example_conversation (CC_ConversationID c))),
       GetConversation = (\<lambda>conversationID. Inr conv),
       GetAnnotationsForConversation = (\<lambda>conversationID annotationType. Inr annotations),
       GetLatestEvaluationForConversation = (\<lambda>conversationID. Inr eval) \<rparr>"

definition example_server :: "Repository \<Rightarrow> RedisQueue \<Rightarrow> Server" where
  "example_server r q =
     \<lparr> cfg = \<lparr> AnnotatorAgreementThreshold = Num (4 / 5) \<rparr>, repo = r, queue = q \<rparr>"

definition example_create :: ConversationCreate where
  "example_create =
     \<lparr> CC_ConversationID = ''c1'', CC_AgentVersion = ''v1'',
       CC_Turns = [JObject [(''turn_id'', JNumber 1), (''role'', JString ''user''),
                            (''content'', JString ''hello'')]],
       CC_Feedback = None, CC_Metadata = None \<rparr>"

definition example_request :: EvaluationRequest where
  "example_request = \<lparr> Req_ConversationID = ''c1'', Req_EvaluatorTypes = None \<rparr>"

section \<open>Properties of the agreement computation\<close>

subsection \<open>The tally\<close>

lemma count_label_Cons:
  "count_label (a # anns) l = (if Ann_Label a = l then 1 else 0) + count_label anns l"
  by (simp add: count_label_def)

lemma count_label_Nil: "count_label [] l = 0"
  by (simp add: count_label_def)

lemma count_label_absent: "l \<notin> set (map Ann_Label anns) \<Longrightarrow> count_label anns l = 0"
  by (induction anns) (auto simp: count_label_Cons count_label_Nil)

lemma tally_lookup:
  "tally m anns l =
     (if l \<in> set (map Ann_Label anns)
      then Some ((case m l of None \<Rightarrow> 0 | Some c \<Rightarrow> c) + count_label anns l)
      else m l)"
proof (induction anns arbitrary: m)
  case Nil
  show ?case by simp
next
  case (Cons a anns)
  show ?case
    using count_label_absent [of l anns]
    by (auto simp: Cons.IH incr_def count_label_Cons)
qed

lemma labelCounts_lookup:
  "labelCounts anns l =
     (if l \<in> set (map Ann_Label anns) then Some (count_label anns l) else None)"
  by (simp add: labelCounts_def tally_lookup)

lemma dom_labelCounts: "dom (labelCounts anns) = set (map Ann_Label anns)"
  by (auto simp: labelCounts_lookup dom_def)

lemma count_label_pos: "l \<in> set (map Ann_Label anns) \<Longrightarrow> 0 < count_label anns l"
proof -
  assume "l \<in> set (map Ann_Label anns)"
  then obtain a where "a \<in> set anns" "Ann_Label a = l" by auto
  then have "filter (\<lambda>a. Ann_Label a = l) anns \<noteq> []"
    by (auto simp: filter_empty_conv)
  then show ?thesis by (simp add: count_label_def)
qed

lemma count_label_le_length: "count_label anns l \<le> int (length anns)"
  by (simp add: count_label_def)


subsection \<open>The loop over the map\<close>

text \<open>
  The loop returns the running maximum, and with it the first key of the iteration order
  that reaches the maximum, unless no key exceeds the starting count.
\<close>

lemma majority_spec:
  "majority m ks (ml, mc) = (r, rc) \<Longrightarrow>
     mc \<le> rc \<and>
     (\<forall>k \<in> set ks. \<forall>c. m k = Some c \<longrightarrow> c \<le> rc) \<and>
     (if rc = mc then r = ml else List.find (\<lambda>k. m k = Some rc) ks = Some r)"
proof (induction ks arbitrary: ml mc)
  case Nil
  then show ?case by simp
next
  case (Cons label ks)
  show ?case
  proof (cases "m label")
    case None
    with Cons.prems have "majority m ks (ml, mc) = (r, rc)" by simp
    from Cons.IH [OF this] None show ?thesis by auto
  next
    case (Some c)
    show ?thesis
    proof (cases "c > mc")
      case True
      with Cons.prems Some have run: "majority m ks (label, c) = (r, rc)" by simp
      note ih = Cons.IH [OF run]
      from ih have "c \<le> rc" by simp
      show ?thesis
      proof (cases "rc = c")
        case True
        with ih have "r = label" by simp
        with True Some \<open>c > mc\<close> ih show ?thesis by auto
      next
        case False
        with ih have "List.find (\<lambda>k. m k = Some rc) ks = Some r" by simp
        with False Some \<open>c > mc\<close> \<open>c \<le> rc\<close> ih show ?thesis by auto
      qed
    next
      case False
      with Cons.prems Some have run: "majority m ks (ml, mc) = (r, rc)" by simp
      note ih = Cons.IH [OF run]
      from ih False Some show ?thesis by auto
    qed
  qed
qed

lemma range_order_labelCounts:
  "range_order (labelCounts anns) ks \<longleftrightarrow> distinct ks \<and> set ks = set (map Ann_Label anns)"
  by (simp add: range_order_def dom_labelCounts)

text \<open>
  On a non-empty list of annotations, ranged over in a valid order, the loop ends with a
  label of the list, its count, and no label has a higher count.
\<close>

lemma majority_labelCounts:
  assumes ne: "anns \<noteq> []"
    and ro: "range_order (labelCounts anns) ks"
    and run: "majority (labelCounts anns) ks ('''', 0) = (r, rc)"
  shows "r \<in> set (map Ann_Label anns)"
    and "rc = count_label anns r"
    and "\<forall>l. count_label anns l \<le> rc"
    and "List.find (\<lambda>k. count_label anns k = rc) ks = Some r"
proof -
  let ?m = "labelCounts anns"
  from ro have ks: "set ks = set (map Ann_Label anns)"
    by (simp add: range_order_labelCounts)
  note spec = majority_spec [OF run]
  from ne obtain a where a: "a \<in> set anns" by (cases anns) auto
  then have la: "Ann_Label a \<in> set (map Ann_Label anns)" by simp
  have bound: "count_label anns l \<le> rc" if l: "l \<in> set (map Ann_Label anns)" for l
  proof -
    from l ks have "l \<in> set ks" by simp
    moreover from l have "?m l = Some (count_label anns l)"
      by (simp add: labelCounts_lookup)
    ultimately show ?thesis using spec by blast
  qed
  from bound [OF la] count_label_pos [OF la] have pos: "0 < rc" by simp
  with spec have fnd: "List.find (\<lambda>k. ?m k = Some rc) ks = Some r" by simp
  then have rin: "r \<in> set ks" and mr: "?m r = Some rc"
    by (auto simp: find_Some_iff)
  from rin ks show r: "r \<in> set (map Ann_Label anns)" by simp
  from mr r show rc: "rc = count_label anns r" by (simp add: labelCounts_lookup)
  show le: "\<forall>l. count_label anns l \<le> rc"
  proof
    fix l
    show "count_label anns l \<le> rc"
    proof (cases "l \<in> set (map Ann_Label anns)")
      case True
      then show ?thesis by (rule bound)
    next
      case False
      with pos show ?thesis by (simp add: count_label_absent)
    qed
  qed
  have "List.find (\<lambda>k. count_label anns k = rc) ks = List.find (\<lambda>k. ?m k = Some rc) ks"
    by (rule find_cong) (auto simp: labelCounts_lookup ks)
  with fnd show "List.find (\<lambda>k. count_label anns k = rc) ks = Some r" by simp
qed

lemma highest_iff:
  assumes "r \<in> set (map Ann_Label anns)" and "\<forall>l. count_label anns l \<le> count_label anns r"
    and "k \<in> set (map Ann_Label anns)"
  shows "highest anns k \<longleftrightarrow> count_label anns k = count_label anns r"
  using assms by (auto simp: highest_def intro: antisym)

lemma agreement_fields:
  "majority (labelCounts anns) ks ('''', 0) = (r, rc) \<Longrightarrow>
   agreement t ks c a anns =
     \<lparr> AA_ConversationID = c, AA_AnnotationType = a, AA_Annotators = annotators anns,
       AA_AgreementScore = (if length anns > 1 then of_int rc / of_nat (length anns) else 1),
       AA_MajorityLabel = r,
       AA_NeedsTiebreaker =
         less_float64 (if length anns > 1 then of_int rc / of_nat (length anns) else 1) t,
       AA_IndividualAnnotations = anns \<rparr>"
  by (simp add: agreement_def Let_def)

subsection \<open>Concrete runs\<close>

lemma count_label_map:
  "count_label anns l = int (length (filter (\<lambda>x. x = l) (map Ann_Label anns)))"
  by (simp add: count_label_def filter_map comp_def)

lemma labels_two_way_tie: "map Ann_Label two_way_tie = [''good'', ''bad'']"
  by (simp add: two_way_tie_def example_annotation_def)

lemma labels_good_good_bad: "map Ann_Label good_good_bad = [''good'', ''good'', ''bad'']"
  by (simp add: good_good_bad_def example_annotation_def)

lemma labelCounts_two_way_tie:
  "labelCounts two_way_tie ''good'' = Some 1" "labelCounts two_way_tie ''bad'' = Some 1"
  by (simp_all add: labelCounts_lookup count_label_map labels_two_way_tie)

lemma labelCounts_good_good_bad:
  "labelCounts good_good_bad ''good'' = Some 2" "labelCounts good_good_bad ''bad'' = Some 1"
  by (simp_all add: labelCounts_lookup count_label_map labels_good_good_bad)

lemma range_order_two_way_tie:
  "range_order (labelCounts two_way_tie) [''good'', ''bad'']"
  "range_order (labelCounts two_way_tie) [''bad'', ''good'']"
  by (auto simp: range_order_labelCounts labels_two_way_tie)

lemma range_order_good_good_bad:
  "range_order (labelCounts good_good_bad) [''good'', ''bad'']"
  "range_order (labelCounts good_good_bad) [''bad'', ''good'']"
  by (auto simp: range_order_labelCounts labels_good_good_bad)

lemma majority_two_way_tie:
  "majority (labelCounts two_way_tie) [''good'', ''bad''] ('''', 0) = (''good'', 1)"
  "majority (labelCounts two_way_tie) [''bad'', ''good''] ('''', 0) = (''bad'', 1)"
  by (simp_all add: labelCounts_two_way_tie)

lemma majority_good_good_bad:
  "majority (labelCounts good_good_bad) [''good'', ''bad''] ('''', 0) = (''good'', 2)"
  "majority (labelCounts good_good_bad) [''bad'', ''good''] ('''', 0) = (''good'', 2)"
  by (simp_all add: labelCounts_good_good_bad)

lemma highest_two_way_tie: "highest two_way_tie ''good''" "highest two_way_tie ''bad''"
  by (simp_all add: highest_def count_label_map labels_two_way_tie)

lemma first_majority_two_way_tie: "first_majority two_way_tie = Some ''good''"
  by (simp add: first_majority_def labels_two_way_tie highest_two_way_tie)

lemma highest_good_good_bad:
  "highest good_good_bad ''good''" "\<not> highest good_good_bad ''bad''"
  by (simp_all add: highest_def count_label_map labels_good_good_bad)

lemma unique_highest_good_good_bad: "unique_highest good_good_bad"
  by (simp add: unique_highest_def labels_good_good_bad highest_good_good_bad)

section \<open>Claims about the agreement computation\<close>

text \<open>
  C1, as the specification states it, fails: on a non-empty list the majority label is
  said to be the first-encountered label of highest count. For two annotations labelled
  \<open>good\<close> and \<open>bad\<close>, in that order, a run whose \<^verbatim>\<open>range\<close> visits \<open>bad\<close> first
  returns \<open>bad\<close>, while the first-encountered label of highest count is \<open>good\<close>.
\<close>

theorem majority_first_encountered_counterexample:
  "two_way_tie \<noteq> [] \<and>
   range_order (labelCounts two_way_tie) [''bad'', ''good''] \<and>
   first_majority two_way_tie = Some ''good'' \<and>
   AA_MajorityLabel (agreement (Num (4 / 5)) [''bad'', ''good''] ''c1'' ''quality'' two_way_tie) = ''bad''"
  by (simp add: range_order_two_way_tie first_majority_two_way_tie
      agreement_fields [OF majority_two_way_tie(2)])
    (simp add: two_way_tie_def)

text \<open>
  C1, amended: for every non-empty list of annotations and every order in which the run
  ranges over the map of label counts, the majority label is a label of the list with the
  highest count, and among the labels of highest count it is the first in that iteration
  order (not in the order of the annotations).
\<close>

theorem majority_label_highest:
  assumes "annotations \<noteq> []"
    and "range_order (labelCounts annotations) ks"
  shows "highest annotations
           (AA_MajorityLabel (agreement threshold ks conversationID annotationType annotations)) \<and>
         List.find (highest annotations) ks =
           Some (AA_MajorityLabel (agreement threshold ks conversationID annotationType annotations))"
proof -
  obtain r rc where run: "majority (labelCounts annotations) ks ('''', 0) = (r, rc)"
    by (cases "majority (labelCounts annotations) ks ('''', 0)")
  note facts = majority_labelCounts [OF assms run]
  from assms(2) have ks: "set ks = set (map Ann_Label annotations)"
    by (simp add: range_order_labelCounts)
  have le: "\<forall>l. count_label annotations l \<le> count_label annotations r"
    using facts(2,3) by simp
  have hi: "highest annotations r"
    using facts(1) le by (simp add: highest_def)
  have "List.find (highest annotations) ks =
        List.find (\<lambda>k. count_label annotations k = rc) ks"
    by (rule find_cong) (use highest_iff [OF facts(1) le] facts(2) ks in auto)
  with facts(4) hi show ?thesis
    by (simp add: agreement_fields [OF run])
qed

theorem majority_label_highest_witness:
  "highest two_way_tie
     (AA_MajorityLabel (agreement (Num (4 / 5)) [''bad'', ''good''] ''c1'' ''quality'' two_way_tie)) \<and>
   List.find (highest two_way_tie) [''bad'', ''good''] = Some ''bad'' \<and>
   AA_MajorityLabel (agreement (Num (4 / 5)) [''bad'', ''good''] ''c1'' ''quality'' two_way_tie) = ''bad''"
proof -
  have ne: "two_way_tie \<noteq> []" by (simp add: two_way_tie_def)
  show ?thesis
    using majority_label_highest [OF ne range_order_two_way_tie(2), of "Num (4 / 5)" "''c1''" "''quality''"]
    by (simp add: agreement_fields [OF majority_two_way_tie(2)])
qed



text \<open>
  C6, as the specification states it, fails: with no annotation the tiebreaker flag is
  said to be unset. The flag is the comparison of the score \<open>1.0\<close> with the
  configured threshold, which the configuration reads from the environment without a
  range check; at the threshold \<open>1.5\<close> the flag is set.
\<close>

theorem zero_annotations_counterexample:
  "range_order (labelCounts []) [] \<and>
   AA_AgreementScore (agreement (Num (3 / 2)) [] ''c1'' ''quality'' []) = 1 \<and>
   AA_NeedsTiebreaker (agreement (Num (3 / 2)) [] ''c1'' ''quality'' [])"
proof -
  have "range_order (labelCounts []) []"
    by (simp add: range_order_labelCounts)
  moreover have "majority (labelCounts []) [] ('''', 0) = ('''', 0)"
    by simp
  ultimately show ?thesis
    by (simp add: agreement_fields)
qed

text \<open>
  C6, amended: with no annotation the majority label is empty and the score is \<open>1.0\<close>,
  and the tiebreaker flag is unset unless the configured threshold is greater than
  \<open>1.0\<close> (a number above \<open>1.0\<close>, or plus infinity), in which case it is set. For
  every threshold that is a number at most \<open>1.0\<close>, for minus infinity and for NaN the
  flag is unset.
\<close>

theorem zero_annotations:
  "AA_MajorityLabel (agreement threshold ks conversationID annotationType []) = '''' \<and>
   AA_AgreementScore (agreement threshold ks conversationID annotationType []) = 1 \<and>
   (AA_NeedsTiebreaker (agreement threshold ks conversationID annotationType []) \<longleftrightarrow>
      (\<exists>t. threshold = Num t \<and> 1 < t) \<or> threshold = PlusInf)"
proof -
  have "majority Map.empty ks ('''', 0) = ('''', 0)"
    by (induction ks) simp_all
  then have run: "majority (labelCounts []) ks ('''', 0) = ('''', 0)"
    by (simp add: labelCounts_def)
  show ?thesis
    by (cases threshold) (simp_all add: agreement_fields [OF run])
qed

theorem zero_annotations_witness:
  "AA_MajorityLabel (agreement (Num (4 / 5)) [] ''c1'' ''quality'' []) = '''' \<and>
   AA_AgreementScore (agreement (Num (4 / 5)) [] ''c1'' ''quality'' []) = 1 \<and>
   \<not> AA_NeedsTiebreaker (agreement (Num (4 / 5)) [] ''c1'' ''quality'' []) \<and>
   \<not> AA_NeedsTiebreaker (agreement NaN [] ''c1'' ''quality'' []) \<and>
   AA_NeedsTiebreaker (agreement PlusInf [] ''c1'' ''quality'' [])"
  using zero_annotations [of "Num (4 / 5)" "[]" "''c1''" "''quality''"]
    zero_annotations [of NaN "[]" "''c1''" "''quality''"]
    zero_annotations [of PlusInf "[]" "''c1''" "''quality''"]
  by simp

section \<open>Properties of the routing decision\<close>

lemma criticalCount_acc:
  "criticalCount issues n =
     n + int (length (filter (\<lambda>i. Issue_Severity i = ''critical'') issues))"
  by (induction issues arbitrary: n) simp_all

lemma criticalCount_pos:
  "criticalCount issues 0 > 0 \<longleftrightarrow> (\<exists>i \<in> set issues. Issue_Severity i = ''critical'')"
  by (simp add: criticalCount_acc filter_empty_conv)

lemma set_suggestedTypes:
  "set (suggestedTypes issues types) =
     set types
     \<union> (if \<exists>i \<in> set issues. is_tool_issue i then {''tool_accuracy''} else {})
     \<union> (if \<exists>i \<in> set issues. is_coherence_issue i then {''coherence''} else {})"
proof (induction issues arbitrary: types)
  case Nil
  show ?case by simp
next
  case (Cons issue issues)
  show ?case
    by (simp add: Cons.IH Let_def) blast
qed

lemma routing_fields:
  "routing conversationID eval issues =
     \<lparr> RD_ConversationID = conversationID,
       RD_NeedsHumanReview =
         (Eval_OverallScore eval < 4 / 10 \<or> (\<exists>i \<in> set issues. Issue_Severity i = ''critical'')),
       RD_Priority =
         (if Eval_OverallScore eval < 4 / 10 \<or> (\<exists>i \<in> set issues. Issue_Severity i = ''critical'')
          then ''high'' else ''low''),
       RD_RoutingReason =
         (if Eval_OverallScore eval < 4 / 10 then [''Low quality score''] else [])
         @ (if \<exists>i \<in> set issues. Issue_Severity i = ''critical''
            then [''Critical issues detected''] else []),
       RD_AutoLabel =
         (\<not> (Eval_OverallScore eval < 4 / 10 \<or> (\<exists>i \<in> set issues. Issue_Severity i = ''critical''))),
       RD_SuggestedAnnotationTypes = suggestedTypes issues [''general_quality''] \<rparr>"
  by (simp add: routing_def low_quality_def critical_issues_def criticalCount_pos)

lemma getRoutingDecision_found:
  "GetLatestEvaluationForConversation (repo s) conversationID = Inr (Some eval) \<Longrightarrow>
   getRoutingDecision s Unmarshal_issues conversationID =
     OkJSON StatusOK (routing conversationID eval (Unmarshal_issues (Eval_IssuesDetected eval)))"
  by (simp add: getRoutingDecision_def)

section \<open>Claims about the routing decision\<close>

text \<open>
  C4: for the routing decision \<open>d\<close> that \<^verbatim>\<open>getRoutingDecision\<close> returns over the latest
  evaluation and its decoded issues: an overall score below \<open>0.4\<close> sets the review flag
  and priority \<open>high\<close> and puts \<open>Low quality score\<close> among the reasons; an issue of
  severity \<open>critical\<close> sets the review flag and priority \<open>high\<close> and puts
  \<open>Critical issues detected\<close> among the reasons; when both hold the priority is
  \<open>high\<close>; and the auto-label flag is the negation of the review flag.
\<close>

theorem routing_triggers:
  assumes "GetLatestEvaluationForConversation (repo s) conversationID = Inr (Some eval)"
    and "issues = Unmarshal_issues (Eval_IssuesDetected eval)"
  shows "\<exists>d. getRoutingDecision s Unmarshal_issues conversationID = OkJSON StatusOK d \<and>
           (Eval_OverallScore eval < 4 / 10 \<longrightarrow>
              RD_NeedsHumanReview d \<and> RD_Priority d = ''high'' \<and>
              ''Low quality score'' \<in> set (RD_RoutingReason d)) \<and>
           ((\<exists>i \<in> set issues. Issue_Severity i = ''critical'') \<longrightarrow>
              RD_NeedsHumanReview d \<and> RD_Priority d = ''high'' \<and>
              ''Critical issues detected'' \<in> set (RD_RoutingReason d)) \<and>
           (Eval_OverallScore eval < 4 / 10 \<and> (\<exists>i \<in> set issues. Issue_Severity i = ''critical'') \<longrightarrow>
              RD_Priority d = ''high'') \<and>
           RD_AutoLabel d = (\<not> RD_NeedsHumanReview d)"
  unfolding getRoutingDecision_found [OF assms(1)] assms(2) [symmetric]
  by (simp add: routing_fields)

theorem routing_triggers_witness:
  "\<exists>d. getRoutingDecision
          (example_server (example_repo None [] (Some (example_evaluation (3 / 10)))) empty_queue)
          (\<lambda>raw. [example_issue ''hallucination'' ''critical'']) ''c1'' = OkJSON StatusOK d \<and>
        RD_NeedsHumanReview d \<and> RD_Priority d = ''high'' \<and>
        ''Low quality score'' \<in> set (RD_RoutingReason d) \<and>
        ''Critical issues detected'' \<in> set (RD_RoutingReason d) \<and>
        \<not> RD_AutoLabel d"
proof -
  let ?s = "example_server (example_repo None [] (Some (example_evaluation (3 / 10)))) empty_queue"
  let ?U = "\<lambda>raw :: RawMessage. [example_issue ''hallucination'' ''critical'']"
  have latest: "GetLatestEvaluationForConversation (repo ?s) ''c1'' =
      Inr (Some (example_evaluation (3 / 10)))"
    by (simp add: example_server_def example_repo_def)
  have issues: "[example_issue ''hallucination'' ''critical''] =
      ?U (Eval_IssuesDetected (example_evaluation (3 / 10)))"
    by simp
  have low: "Eval_OverallScore (example_evaluation (3 / 10)) < 4 / 10"
    by (simp add: example_evaluation_def)
  have crit: "\<exists>i \<in> set [example_issue ''hallucination'' ''critical'']. Issue_Severity i = ''critical''"
    by (simp add: example_issue_def)
  from routing_triggers [OF latest issues] low crit show ?thesis
    by blast
qed

text \<open>
  C5: the suggested annotation types of the routing decision always contain
  \<open>general_quality\<close>; they contain \<open>tool_accuracy\<close> exactly when some decoded issue
  has type \<open>tool\<close> or \<open>tool_execution_failure\<close>, and \<open>coherence\<close> exactly when
  some decoded issue has type \<open>context_loss\<close> or \<open>coherence\<close>. An evaluation with
  overall score \<open>0.9\<close> and no issue gives: no review, priority \<open>low\<close>, the single
  suggested type \<open>general_quality\<close>, auto-label set.
\<close>

theorem routing_suggested_types:
  assumes "GetLatestEvaluationForConversation (repo s) conversationID = Inr (Some eval)"
    and "issues = Unmarshal_issues (Eval_IssuesDetected eval)"
  shows "\<exists>d. getRoutingDecision s Unmarshal_issues conversationID = OkJSON StatusOK d \<and>
           ''general_quality'' \<in> set (RD_SuggestedAnnotationTypes d) \<and>
           (''tool_accuracy'' \<in> set (RD_SuggestedAnnotationTypes d) \<longleftrightarrow>
              (\<exists>i \<in> set issues.
                 Issue_Type i = ''tool'' \<or> Issue_Type i = ''tool_execution_failure'')) \<and>
           (''coherence'' \<in> set (RD_SuggestedAnnotationTypes d) \<longleftrightarrow>
              (\<exists>i \<in> set issues.
                 Issue_Type i = ''context_loss'' \<or> Issue_Type i = ''coherence'')) \<and>
           (Eval_OverallScore eval = 9 / 10 \<and> issues = [] \<longrightarrow>
              \<not> RD_NeedsHumanReview d \<and> RD_Priority d = ''low'' \<and>
              RD_SuggestedAnnotationTypes d = [''general_quality''] \<and> RD_AutoLabel d)"
  unfolding getRoutingDecision_found [OF assms(1)] assms(2) [symmetric]
  by (auto simp: routing_fields set_suggestedTypes is_tool_issue_def is_coherence_issue_def)

theorem routing_suggested_types_witness:
  "\<exists>d. getRoutingDecision
          (example_server (example_repo None [] (Some (example_evaluation (9 / 10)))) empty_queue)
          (\<lambda>raw. []) ''c1'' = OkJSON StatusOK d \<and>
        ''general_quality'' \<in> set (RD_SuggestedAnnotationTypes d) \<and>
        ''tool_accuracy'' \<notin> set (RD_SuggestedAnnotationTypes d) \<and>
        ''coherence'' \<notin> set (RD_SuggestedAnnotationTypes d) \<and>
        \<not> RD_NeedsHumanReview d \<and> RD_Priority d = ''low'' \<and>
        RD_SuggestedAnnotationTypes d = [''general_quality''] \<and> RD_AutoLabel d"
proof -
  let ?s = "example_server (example_repo None [] (Some (example_evaluation (9 / 10)))) empty_queue"
  let ?U = "\<lambda>raw :: RawMessage. [] :: IssueDetected list"
  have latest: "GetLatestEvaluationForConversation (repo ?s) ''c1'' =
      Inr (Some (example_evaluation (9 / 10)))"
    by (simp add: example_server_def example_repo_def)
  have issues: "[] = ?U (Eval_IssuesDetected (example_evaluation (9 / 10)))"
    by simp
  have score: "Eval_OverallScore (example_evaluation (9 / 10)) = 9 / 10"
    by (simp add: example_evaluation_def)
  from routing_suggested_types [OF latest issues] score show ?thesis
    by auto
qed

section \<open>Recomputation\<close>

lemma range_order_no_labels: "range_order (labelCounts []) ks \<Longrightarrow> ks = []"
  by (simp add: range_order_labelCounts)

text \<open>Two runs over the same annotations end their loops with the same count.\<close>

lemma majority_count_unique:
  assumes "range_order (labelCounts anns) ks" and "range_order (labelCounts anns) ks'"
    and "majority (labelCounts anns) ks ('''', 0) = (r, rc)"
    and "majority (labelCounts anns) ks' ('''', 0) = (r', rc')"
  shows "rc = rc'"
proof (cases "anns = []")
  case True
  with assms(1,2) have "ks = []" "ks' = []"
    by (simp_all add: range_order_no_labels)
  with assms(3,4) show ?thesis by simp
next
  case False
  note a = majority_labelCounts [OF False assms(1) assms(3)]
  note b = majority_labelCounts [OF False assms(2) assms(4)]
  from a(2) b(3) have "rc \<le> rc'" by simp
  moreover from b(2) a(3) have "rc' \<le> rc" by simp
  ultimately show ?thesis by simp
qed

lemma majority_label_unique:
  assumes "unique_highest anns"
    and "range_order (labelCounts anns) ks" and "range_order (labelCounts anns) ks'"
    and "majority (labelCounts anns) ks ('''', 0) = (r, rc)"
    and "majority (labelCounts anns) ks' ('''', 0) = (r', rc')"
  shows "r = r'"
proof (cases "anns = []")
  case True
  with assms(2,3) have "ks = []" "ks' = []"
    by (simp_all add: range_order_no_labels)
  with assms(4,5) show ?thesis by simp
next
  case False
  note a = majority_labelCounts [OF False assms(2) assms(4)]
  note b = majority_labelCounts [OF False assms(3) assms(5)]
  from a have "highest anns r" by (simp add: highest_def)
  moreover from b have "highest anns r'" by (simp add: highest_def)
  ultimately show ?thesis
    using assms(1) a(1) b(1) unfolding unique_highest_def by blast
qed

text \<open>
  C2, as the specification states it, fails for the agreement computation: two runs on
  the same conversation id, annotation type and annotations are said to give identical
  output. On two annotations labelled \<open>good\<close> and \<open>bad\<close>, a run whose \<^verbatim>\<open>range\<close>
  visits \<open>good\<close> first and a run whose \<^verbatim>\<open>range\<close> visits \<open>bad\<close> first return
  different majority labels.
\<close>

theorem agreement_rerun_counterexample:
  "range_order (labelCounts two_way_tie) [''good'', ''bad''] \<and>
   range_order (labelCounts two_way_tie) [''bad'', ''good''] \<and>
   AA_MajorityLabel (agreement (Num (4 / 5)) [''good'', ''bad''] ''c1'' ''quality'' two_way_tie) = ''good'' \<and>
   AA_MajorityLabel (agreement (Num (4 / 5)) [''bad'', ''good''] ''c1'' ''quality'' two_way_tie) = ''bad'' \<and>
   agreement (Num (4 / 5)) [''good'', ''bad''] ''c1'' ''quality'' two_way_tie \<noteq>
   agreement (Num (4 / 5)) [''bad'', ''good''] ''c1'' ''quality'' two_way_tie"
  by (simp add: range_order_two_way_tie agreement_fields [OF majority_two_way_tie(1)]
      agreement_fields [OF majority_two_way_tie(2)])

text \<open>
  C2, amended: two runs of \<^verbatim>\<open>getRoutingDecision\<close> that find the same latest evaluation
  for a conversation id return the same response. Two runs of the agreement computation
  on the same threshold, conversation id, annotation type and annotations, whatever the
  order in which each ranges over the map of label counts, return results that agree in
  every field except the majority label, and in the majority label too when at most one
  label has the highest count.
\<close>

theorem recomputation_deterministic:
  assumes "GetLatestEvaluationForConversation (repo s) conversationID =
           GetLatestEvaluationForConversation (repo s') conversationID"
    and "range_order (labelCounts annotations) ks"
    and "range_order (labelCounts annotations) ks'"
  shows "getRoutingDecision s Unmarshal_issues conversationID =
           getRoutingDecision s' Unmarshal_issues conversationID \<and>
         (agreement threshold ks conversationID annotationType annotations)
             \<lparr>AA_MajorityLabel := l\<rparr> =
           (agreement threshold ks' conversationID annotationType annotations)
             \<lparr>AA_MajorityLabel := l\<rparr> \<and>
         (unique_highest annotations \<longrightarrow>
            agreement threshold ks conversationID annotationType annotations =
            agreement threshold ks' conversationID annotationType annotations)"
proof -
  obtain r rc where run: "majority (labelCounts annotations) ks ('''', 0) = (r, rc)"
    by (cases "majority (labelCounts annotations) ks ('''', 0)")
  obtain r' rc' where run': "majority (labelCounts annotations) ks' ('''', 0) = (r', rc')"
    by (cases "majority (labelCounts annotations) ks' ('''', 0)")
  have count: "rc = rc'"
    by (rule majority_count_unique [OF assms(2,3) run run'])
  have label: "r = r'" if "unique_highest annotations"
    by (rule majority_label_unique [OF that assms(2,3) run run'])
  have "getRoutingDecision s Unmarshal_issues conversationID =
        getRoutingDecision s' Unmarshal_issues conversationID"
    by (simp add: getRoutingDecision_def assms(1))
  moreover have
    "(agreement threshold ks conversationID annotationType annotations)\<lparr>AA_MajorityLabel := l\<rparr> =
     (agreement threshold ks' conversationID annotationType annotations)\<lparr>AA_MajorityLabel := l\<rparr>"
    by (simp add: agreement_fields [OF run] agreement_fields [OF run'] count)
  moreover have "agreement threshold ks conversationID annotationType annotations =
      agreement threshold ks' conversationID annotationType annotations"
    if "unique_highest annotations"
    using label [OF that]
    by (simp add: agreement_fields [OF run] agreement_fields [OF run'] count)
  ultimately show ?thesis by blast
qed

theorem recomputation_deterministic_witness:
  "getRoutingDecision
     (example_server (example_repo None [] (Some (example_evaluation (3 / 10)))) empty_queue)
     (\<lambda>raw. []) ''c1'' =
   getRoutingDecision
     (example_server (example_repo None good_good_bad (Some (example_evaluation (3 / 10))))
        empty_queue)
     (\<lambda>raw. []) ''c1'' \<and>
   unique_highest good_good_bad \<and>
   agreement (Num (4 / 5)) [''good'', ''bad''] ''c1'' ''quality'' good_good_bad =
   agreement (Num (4 / 5)) [''bad'', ''good''] ''c1'' ''quality'' good_good_bad"
proof -
  let ?s = "example_server (example_repo None [] (Some (example_evaluation (3 / 10)))) empty_queue"
  let ?s' = "example_server (example_repo None good_good_bad (Some (example_evaluation (3 / 10))))
      empty_queue"
  have latest: "GetLatestEvaluationForConversation (repo ?s) ''c1'' =
      GetLatestEvaluationForConversation (repo ?s') ''c1''"
    by (simp add: example_server_def example_repo_def)
  from recomputation_deterministic [OF latest range_order_good_good_bad,
      where Unmarshal_issues = "\<lambda>raw. []" and threshold = "Num (4 / 5)"
        and annotationType = "''quality''"]
    unique_highest_good_good_bad
  show ?thesis by blast
qed

section \<open>Properties of the queue\<close>

lemma ToValidUTF8_valid: "valid_utf8 s \<Longrightarrow> ToValidUTF8 s = s"
proof (induction s rule: valid_utf8.induct)
  case 1
  show ?case by simp
next
  case (2 c cs)
  from "2.prems" have nz: "rune_size (c # cs) \<noteq> 0"
    and rest: "valid_utf8 (drop (rune_size (c # cs)) (c # cs))"
    by (simp_all del: rune_size.simps split: if_splits)
  from "2.IH" [OF nz rest] nz show ?case
    by (simp del: rune_size.simps)
qed

lemma map_ToValidUTF8_valid:
  "list_all valid_utf8 ts \<Longrightarrow> map (\<lambda>t. JString (ToValidUTF8 t)) ts = map JString ts"
  by (induction ts) (simp_all add: ToValidUTF8_valid)

lemma decode_strings_JString:
  "list_all valid_utf8 ts \<Longrightarrow> decode_strings (map JString ts) = Inr ts"
  by (induction ts) (simp_all add: decode_string_def ToValidUTF8_valid)

lemma omitempty_nil_if_empty:
  "omitempty name field enc =
     (case nil_if_empty field of None \<Rightarrow> [] | Some xs \<Rightarrow> [(name, enc xs)])"
  by (simp add: omitempty_def nil_if_empty_def split: option.splits)

text \<open>The tag names, as the decoder compares them.\<close>

lemma folded_names:
  "foldName ''id'' = ''ID''"
  "foldName ''type'' = ''TYPE''"
  "foldName ''conversation_id'' = ''CONVERSATION_ID''"
  "foldName ''evaluator_types'' = ''EVALUATOR_TYPES''"
  "foldName ''payload'' = ''PAYLOAD''"
  "foldName ''created_at'' = ''CREATED_AT''"
  by (simp_all add: upper_def byte_def)

lemma valid_names:
  "ToValidUTF8 ''id'' = ''id''"
  "ToValidUTF8 ''type'' = ''type''"
  "ToValidUTF8 ''conversation_id'' = ''conversation_id''"
  "ToValidUTF8 ''evaluator_types'' = ''evaluator_types''"
  "ToValidUTF8 ''payload'' = ''payload''"
  "ToValidUTF8 ''created_at'' = ''created_at''"
  by (simp_all add: byte_def)

text \<open>
  Decoding an encoded task restores every field, except that an empty slice comes back
  \<^verbatim>\<open>nil\<close> and that the payload, which has no member, comes back \<^verbatim>\<open>nil\<close>.
\<close>

lemma Unmarshal_Marshal_Task:
  assumes "encodable task"
  shows "\<exists>data. Marshal_Task task = Inr data \<and>
     Unmarshal_Task decode_number data =
       Inr (task\<lparr>Task_EvaluatorTypes := nil_if_empty (Task_EvaluatorTypes task),
                 Task_Payload := None\<rparr>)"
proof -
  from assms have strings: "ToValidUTF8 (Task_ID task) = Task_ID task"
      "ToValidUTF8 (Task_Type task) = Task_Type task"
      "ToValidUTF8 (Task_ConversationID task) = Task_ConversationID task"
    and time: "rfc3339 (Task_CreatedAt task)"
    and payload: "nil_if_empty (Task_Payload task) = None"
    by (simp_all add: encodable_def ToValidUTF8_valid)
  show ?thesis
  proof (cases "nil_if_empty (Task_EvaluatorTypes task)")
    case None
    then show ?thesis
      by (simp add: Marshal_Task_def Unmarshal_Task_def omitempty_nil_if_empty member_def
          decode_string_def decode_slice_def decode_map_def decode_time_def
          strings time payload folded_names valid_names
          del: ToValidUTF8.simps foldName.simps)
  next
    case (Some ts)
    then have "Task_EvaluatorTypes task = Some ts"
      by (auto simp: nil_if_empty_def split: option.splits if_splits)
    with assms have "list_all valid_utf8 ts"
      by (simp add: encodable_def)
    with Some show ?thesis
      by (simp add: Marshal_Task_def Unmarshal_Task_def omitempty_nil_if_empty member_def
          decode_string_def decode_slice_def decode_map_def decode_time_def
          strings time payload folded_names valid_names
          map_ToValidUTF8_valid decode_strings_JString
          del: ToValidUTF8.simps foldName.simps)
  qed
qed

lemma formatSec_nonneg: "0 \<le> timeout \<Longrightarrow> \<not> formatSec timeout < 0"
  by (auto simp: formatSec_def not_less div_int_pos_iff)

lemma RPush_fresh:
  "client_down q = None \<Longrightarrow> client_store q key = None \<Longrightarrow>
   RPush q key data = (q\<lparr>client_store := (client_store q)(key \<mapsto> RList [data])\<rparr>, None)"
  by (simp add: RPush_def)

lemma BLPop_single:
  assumes "client_down q = None" and "client_store q key = None" and "0 \<le> timeout"
  shows "BLPop (q\<lparr>client_store := (client_store q)(key \<mapsto> RList [data])\<rparr>) timeout key =
           Some (q, Inr [BulkKey key, BulkData data])"
proof -
  have "(client_store q)(key := None) = client_store q"
    using assms(2) by (simp add: fun_eq_iff)
  then show ?thesis
    using assms(1) formatSec_nonneg [OF assms(3)] by (simp add: BLPop_def)
qed

lemma Enqueue_Dequeue:
  assumes "client_down q = None" and "client_store q queueName = None"
    and "0 \<le> timeout" and "encodable task"
  shows "\<exists>q'. Enqueue q queueName task = (q', None) \<and>
           Dequeue decode_number q' queueName timeout =
             Some (q, Inr (Some (task\<lparr>Task_EvaluatorTypes := nil_if_empty (Task_EvaluatorTypes task),
                                       Task_Payload := None\<rparr>)))"
proof -
  from Unmarshal_Marshal_Task [OF assms(4), of decode_number] obtain data where
    enc: "Marshal_Task task = Inr data" and
    dec: "Unmarshal_Task decode_number data =
       Inr (task\<lparr>Task_EvaluatorTypes := nil_if_empty (Task_EvaluatorTypes task),
                 Task_Payload := None\<rparr>)"
    by blast
  let ?q' = "q\<lparr>client_store := (client_store q)(queueName \<mapsto> RList [data])\<rparr>"
  have "Enqueue q queueName task = (?q', None)"
    by (simp add: Enqueue_def enc RPush_fresh [OF assms(1,2)])
  moreover have "Dequeue decode_number ?q' queueName timeout =
      Some (q, Inr (Some (task\<lparr>Task_EvaluatorTypes := nil_if_empty (Task_EvaluatorTypes task),
                                Task_Payload := None\<rparr>)))"
    by (simp add: Dequeue_def BLPop_single [OF assms(1,2,3)] dec)
  ultimately show ?thesis by blast
qed

text \<open>The example tasks are encodable.\<close>

lemma rfc3339_examples:
  "rfc3339 ''2024-01-01T00:00:00Z''" "rfc3339 ''2024-01-01T00:00:01Z''"
  by (simp_all add: rfc3339_def slice_def digits_def digit_def num_def byte_def days_in_def
      leap_def fraction_and_zone_def zone_def)

lemma valid_utf8_examples:
  "valid_utf8 ''7c9e6679-7425-40de-944b-e07fc1f90ae7''" "valid_utf8 ''evaluate''"
  "valid_utf8 ''c1''" "list_all valid_utf8 default_evaluators"
  by (simp_all add: byte_def default_evaluators_def)

lemma encodable_example_task:
  "encodable (example_task (Some []) (Some []))"
  "encodable (example_task (Some default_evaluators) None)"
  by (simp_all add: encodable_def example_task_def nil_if_empty_def rfc3339_examples
      valid_utf8_examples del: valid_utf8.simps)

section \<open>Claims about the queue\<close>

text \<open>
  C8, as the specification states it, fails: every task is said to come back deep-equal
  from an enqueue followed by a dequeue on an otherwise untouched queue. A task whose
  \<^verbatim>\<open>EvaluatorTypes\<close> is the empty, non-nil slice and whose \<^verbatim>\<open>Payload\<close> is the empty,
  non-nil map is encoded without the members \<open>evaluator_types\<close> and \<open>payload\<close>
  (their tags say \<^verbatim>\<open>omitempty\<close>), and the dequeued task has \<^verbatim>\<open>nil\<close> in both fields.
\<close>

theorem enqueue_dequeue_counterexample:
  "snd (Enqueue empty_queue ''evaluations'' (example_task (Some []) (Some []))) = None \<and>
   map_option snd
     (Dequeue (\<lambda>r. r) (fst (Enqueue empty_queue ''evaluations'' (example_task (Some []) (Some []))))
        ''evaluations'' 5000000000) = Some (Inr (Some (example_task None None))) \<and>
   example_task None None \<noteq> example_task (Some []) (Some [])"
proof -
  have down: "client_down empty_queue = None"
    and absent: "client_store empty_queue ''evaluations'' = None"
    by (simp_all add: empty_queue_def)
  have timeout: "(0::int) \<le> 5000000000" by simp
  from Enqueue_Dequeue [OF down absent timeout encodable_example_task(1), of "\<lambda>r. r"]
  obtain q' where
    "Enqueue empty_queue ''evaluations'' (example_task (Some []) (Some [])) = (q', None)"
    and "Dequeue (\<lambda>r. r) q' ''evaluations'' 5000000000 =
      Some (empty_queue, Inr (Some ((example_task (Some []) (Some []))
         \<lparr>Task_EvaluatorTypes :=
            nil_if_empty (Task_EvaluatorTypes (example_task (Some []) (Some []))),
          Task_Payload := None\<rparr>)))"
    by blast
  then show ?thesis
    by (simp add: example_task_def nil_if_empty_def)
qed

text \<open>
  C8, amended: take a task whose strings are valid UTF-8, whose time can be printed as
  RFC 3339 (its year is within 0..9999) and whose payload is \<^verbatim>\<open>nil\<close> or empty. On a
  working connection and a queue that does not exist yet, enqueueing the task succeeds,
  and the dequeue that follows, with a timeout that is not negative, returns the task
  with every field as it was, except that an empty non-nil \<^verbatim>\<open>EvaluatorTypes\<close> or
  \<^verbatim>\<open>Payload\<close> comes back \<^verbatim>\<open>nil\<close>, and leaves the store as it was before the enqueue.
  So such a task comes back equal when its payload is \<^verbatim>\<open>nil\<close> and its
  \<^verbatim>\<open>EvaluatorTypes\<close> is \<^verbatim>\<open>nil\<close> or non-empty. (The time is compared by its RFC 3339
  rendering.)
\<close>

theorem enqueue_dequeue_roundtrip:
  assumes "client_down q = None" and "client_store q queueName = None"
    and "0 \<le> timeout" and "encodable task"
  shows "\<exists>q'. Enqueue q queueName task = (q', None) \<and>
           Dequeue decode_number q' queueName timeout =
             Some (q, Inr (Some (task\<lparr>Task_EvaluatorTypes := nil_if_empty (Task_EvaluatorTypes task),
                                       Task_Payload := None\<rparr>))) \<and>
           (Task_EvaluatorTypes task \<noteq> Some [] \<and> Task_Payload task = None \<longrightarrow>
              Dequeue decode_number q' queueName timeout = Some (q, Inr (Some task)))"
proof -
  have same: "task\<lparr>Task_EvaluatorTypes := nil_if_empty (Task_EvaluatorTypes task),
                  Task_Payload := None\<rparr> = task"
    if "Task_EvaluatorTypes task \<noteq> Some []" "Task_Payload task = None"
    using that by (simp add: nil_if_empty_def split: option.splits)
  from Enqueue_Dequeue [OF assms, of decode_number] same show ?thesis
    by auto
qed

theorem enqueue_dequeue_roundtrip_witness:
  "\<exists>q'. Enqueue empty_queue ''evaluations'' (example_task (Some default_evaluators) None) = (q', None) \<and>
        Dequeue (\<lambda>r. r) q' ''evaluations'' 5000000000 =
          Some (empty_queue, Inr (Some (example_task (Some default_evaluators) None)))"
proof -
  have down: "client_down empty_queue = None"
    and absent: "client_store empty_queue ''evaluations'' = None"
    by (simp_all add: empty_queue_def)
  have timeout: "(0::int) \<le> 5000000000" by simp
  have ets: "Task_EvaluatorTypes (example_task (Some default_evaluators) None) \<noteq> Some []"
    by (simp add: example_task_def default_evaluators_def)
  have pl: "Task_Payload (example_task (Some default_evaluators) None) = None"
    by (simp add: example_task_def)
  from enqueue_dequeue_roundtrip [OF down absent timeout encodable_example_task(2),
      of "\<lambda>r. r"] ets pl
  show ?thesis by blast
qed

text \<open>
  C9: on a working connection, \<^verbatim>\<open>Get\<close> on a key that the store does not hold returns
  no error (\<^verbatim>\<open>nil\<close>) and leaves the caller's destination as it was: absence is the
  normal outcome \<open>(None, dest)\<close>. It is told apart from a failure: were the connection
  down, the same call would return a wrapped error.
\<close>

theorem get_missing_key:
  assumes "client_down q = None" and "client_store q key = None"
  shows "Get Unmarshal q key dest = (None, dest) \<and>
         (\<forall>msg. Get Unmarshal (q\<lparr>client_down := Some msg\<rparr>) key dest =
            (Some (Wrapped ''failed to get value'' (RedisError msg)), dest))"
  using assms by (simp add: Get_def GET_def)

theorem get_missing_key_witness:
  "client_down empty_queue = None \<and> client_store empty_queue ''calibration:latest'' = None \<and>
   Get Unmarshal_string empty_queue ''calibration:latest'' ''unset'' = (None, ''unset'')"
proof -
  have down: "client_down empty_queue = None"
    and absent: "client_store empty_queue ''calibration:latest'' = None"
    by (simp_all add: empty_queue_def)
  from get_missing_key [OF down absent, of Unmarshal_string "''unset''"] down absent
  show ?thesis by simp
qed

section \<open>Claims about dispatch in the handlers\<close>

lemma Enqueue_down:
  "client_down q = Some msg \<Longrightarrow> \<exists>err. snd (Enqueue q queueName task) = Some err"
  by (simp add: Enqueue_def RPush_def split: sum.splits)

text \<open>
  C7: when the enqueue of the evaluation task fails, \<^verbatim>\<open>triggerEvaluation\<close> (on a
  well-formed request for a conversation that exists) answers with the error
  \<open>Failed to queue evaluation\<close>, whereas \<^verbatim>\<open>createConversation\<close> answers with
  status 201 and the created conversation whenever the repository created it. The
  response of \<^verbatim>\<open>createConversation\<close> is the same for every state of the queue, so no
  failure of the dispatch makes the ingestion fail.
\<close>

theorem enqueue_failure_reporting:
  assumes "GetConversation (repo s) (Req_ConversationID req) = Inr (Some conv)"
    and "snd (Enqueue (queue s) ''evaluations'' (trigger_task req uuid now)) = Some err"
    and "CreateConversation (repo s) c = Inr created"
  shows "fst (triggerEvaluation s (Inr req) uuid now) =
           ErrorJSON StatusInternalServerError ''Failed to queue evaluation'' \<and>
         fst (createConversation s (Inr c) auto_evaluate uuid' now') =
           OkJSON StatusCreated created \<and>
         (\<forall>q. fst (createConversation (s\<lparr>queue := q\<rparr>) bound auto_evaluate uuid' now') =
              fst (createConversation s bound auto_evaluate uuid' now'))"
proof -
  obtain q' where "Enqueue (queue s) ''evaluations'' (trigger_task req uuid now) = (q', Some err)"
    using assms(2) by (cases "Enqueue (queue s) ''evaluations'' (trigger_task req uuid now)") simp
  with assms(1) have "fst (triggerEvaluation s (Inr req) uuid now) =
      ErrorJSON StatusInternalServerError ''Failed to queue evaluation''"
    by (simp add: triggerEvaluation_def)
  moreover from assms(3) have "fst (createConversation s (Inr c) auto_evaluate uuid' now') =
      OkJSON StatusCreated created"
    by (simp add: createConversation_def Let_def)
  moreover have "fst (createConversation (s\<lparr>queue := q\<rparr>) bound auto_evaluate uuid' now') =
      fst (createConversation s bound auto_evaluate uuid' now')" for q
    by (simp add: createConversation_def Let_def split: sum.splits)
  ultimately show ?thesis by blast
qed

theorem enqueue_failure_reporting_witness:
  "snd (Enqueue down_queue ''evaluations''
          (ingest_task example_create ''u2'' ''2024-01-01T00:00:01Z'')) \<noteq> None \<and>
   fst (triggerEvaluation
          (example_server (example_repo (Some (example_conversation ''c1'')) [] None) down_queue)
          (Inr example_request) ''u1'' ''2024-01-01T00:00:00Z'') =
     ErrorJSON StatusInternalServerError ''Failed to queue evaluation'' \<and>
   fst (createConversation
          (example_server (example_repo (Some (example_conversation ''c1'')) [] None) down_queue)
          (Inr example_create) None ''u2'' ''2024-01-01T00:00:01Z'') =
     OkJSON StatusCreated (example_conversation ''c1'')"
proof -
  let ?s = "example_server (example_repo (Some (example_conversation ''c1'')) [] None) down_queue"
  have down: "client_down down_queue = Some ''dial tcp: connection refused''"
    by (simp add: down_queue_def)
  have found: "GetConversation (repo ?s) (Req_ConversationID example_request) =
      Inr (Some (example_conversation ''c1''))"
    by (simp add: example_server_def example_repo_def)
  from Enqueue_down [OF down] obtain err where
    fails: "snd (Enqueue (queue ?s) ''evaluations''
      (trigger_task example_request ''u1'' ''2024-01-01T00:00:00Z'')) = Some err"
    unfolding example_server_def by fastforce
  have created: "CreateConversation (repo ?s) example_create = Inr (example_conversation ''c1'')"
    by (simp add: example_server_def example_repo_def example_create_def)
  have "snd (Enqueue down_queue ''evaluations''
          (ingest_task example_create ''u2'' ''2024-01-01T00:00:01Z'')) \<noteq> None"
    using Enqueue_down [OF down] by fastforce
  with enqueue_failure_reporting [OF found fails created,
      where auto_evaluate = None and uuid' = "''u2''" and now' = "''2024-01-01T00:00:01Z''"]
  show ?thesis by blast
qed

text \<open>
  C10: when the repository holds no conversation of the requested id,
  \<^verbatim>\<open>triggerEvaluation\<close> answers with status 404 and \<open>Conversation not found\<close>, and the
  queue it leaves behind is the queue it found: nothing is enqueued.
\<close>

theorem trigger_unknown_conversation:
  assumes "GetConversation (repo s) (Req_ConversationID req) = Inr None"
  shows "triggerEvaluation s (Inr req) uuid now =
           (ErrorJSON StatusNotFound ''Conversation not found'', queue s)"
  using assms by (simp add: triggerEvaluation_def)

theorem trigger_unknown_conversation_witness:
  "triggerEvaluation (example_server (example_repo None [] None) empty_queue)
     (Inr example_request) ''u1'' ''2024-01-01T00:00:00Z'' =
   (ErrorJSON StatusNotFound ''Conversation not found'', empty_queue)"
proof -
  let ?s = "example_server (example_repo None [] None) empty_queue"
  have missing: "GetConversation (repo ?s) (Req_ConversationID example_request) = Inr None"
    by (simp add: example_server_def example_repo_def)
  from trigger_unknown_conversation [OF missing, of "''u1''" "''2024-01-01T00:00:00Z''"]
  show ?thesis by (simp add: example_server_def)
qed


end
